theory Spec2Isabelle
  imports Complex_Main "HOL-Library.Word" "HOL-Library.Sublist"
begin

section \<open>Strings\<close>

text \<open>
  A JavaScript string is a sequence of UTF-16 code units; \<open>length\<close>, \<open>startsWith\<close>,
  \<open>split\<close> and the regular expressions of the analyzers (none has the \<open>u\<close> flag) all
  work on code units. The icons of the feedback items lie outside ASCII, two of them
  outside the basic plane, so they are written out as code units.
\<close>

type_synonym code_unit = "16 word"
type_synonym jstring = "code_unit list"

definition ascii :: "string \<Rightarrow> jstring" where
  "ascii s = map (\<lambda>c. of_nat (of_char c)) s"

text \<open>The icons, em dash, en dash and bullet glyphs that occur in \<open>RsumeScan.js\<close>.\<close>

definition red_circle :: jstring where "red_circle = [0xD83D, 0xDD34]"          \<comment> \<open>U+1F534\<close>
definition warning_sign :: jstring where "warning_sign = [0x26A0, 0xFE0F]"      \<comment> \<open>U+26A0 U+FE0F\<close>
definition orange_circle :: jstring where "orange_circle = [0xD83D, 0xDFE0]"    \<comment> \<open>U+1F7E0\<close>
definition yellow_circle :: jstring where "yellow_circle = [0xD83D, 0xDFE1]"    \<comment> \<open>U+1F7E1\<close>
definition green_circle :: jstring where "green_circle = [0xD83D, 0xDFE2]"      \<comment> \<open>U+1F7E2\<close>
definition check_mark :: jstring where "check_mark = [0x2705]"                  \<comment> \<open>U+2705\<close>
definition cross_mark :: jstring where "cross_mark = [0x274C]"                  \<comment> \<open>U+274C\<close>
definition page_icon :: jstring where "page_icon = [0xD83D, 0xDCC4]"            \<comment> \<open>U+1F4C4\<close>
definition clipboard_icon :: jstring where "clipboard_icon = [0xD83D, 0xDCCB]"  \<comment> \<open>U+1F4CB\<close>
definition chart_icon :: jstring where "chart_icon = [0xD83D, 0xDCCA]"          \<comment> \<open>U+1F4CA\<close>
definition em_dash :: jstring where "em_dash = [0x2014]"
definition en_dash :: jstring where "en_dash = [0x2013]"
definition bullet_glyph :: code_unit where "bullet_glyph = 0x2022"
definition square_glyph :: code_unit where "square_glyph = 0x25AA"

text \<open>\<open>r.startsWith(icon)\<close>: the code units of \<open>icon\<close> are the first ones of \<open>r\<close>.\<close>

fun startsWith :: "jstring \<Rightarrow> jstring \<Rightarrow> bool" where
  "startsWith r [] = True"
| "startsWith [] (c # cs) = False"
| "startsWith (x # xs) (c # cs) = (x = c \<and> startsWith xs cs)"

section \<open>Scoring\<close>

text \<open>
  \<open>calculateScore\<close> (lines 151-165). The object \<open>deductions\<close> is a table in insertion
  order, which is the order \<open>Object.keys\<close> walks it in. The outer \<open>forEach\<close> runs over the
  results, the inner one over the keys; \<open>deductions[icon]\<close> looks the key up again (a key
  of the table is always found; the other branch of the lookup is there to keep the model
  total).
\<close>

definition deductions :: "(jstring \<times> int) list" where
  "deductions = [(red_circle, 15), (warning_sign, 10), (orange_circle, 7), (yellow_circle, 5)]"

definition deduct :: "jstring \<Rightarrow> jstring \<Rightarrow> int \<Rightarrow> int" where
  "deduct r icon score =
     (if startsWith r icon
      then (case map_of deductions icon of Some w \<Rightarrow> score - w | None \<Rightarrow> score)
      else score)"

definition calculateScore :: "jstring list \<Rightarrow> int" where
  "calculateScore results =
     max 0 (fold (\<lambda>r score. fold (deduct r) (map fst deductions) score) results 100)"

text \<open>
  The scorer as the specification words it: every item has a leading tag out of the
  vocabulary of seven, every tag a weight.
\<close>

datatype tag = Red | Warning | Orange | Yellow | Green | CheckMark | CrossMark

fun icon_of :: "tag \<Rightarrow> jstring" where
  "icon_of Red = red_circle"
| "icon_of Warning = warning_sign"
| "icon_of Orange = orange_circle"
| "icon_of Yellow = yellow_circle"
| "icon_of Green = green_circle"
| "icon_of CheckMark = check_mark"
| "icon_of CrossMark = cross_mark"

fun weight :: "tag \<Rightarrow> int" where
  "weight Red = 15"
| "weight Warning = 10"
| "weight Orange = 7"
| "weight Yellow = 5"
| "weight Green = 0"
| "weight CheckMark = 0"
| "weight CrossMark = 0"

definition tag_vocabulary :: "tag list" where
  "tag_vocabulary = [Red, Warning, Orange, Yellow, Green, CheckMark, CrossMark]"

definition leading_tag :: "jstring \<Rightarrow> tag option" where
  "leading_tag r = find (\<lambda>t. startsWith r (icon_of t)) tag_vocabulary"

definition item_weight :: "jstring \<Rightarrow> int" where
  "item_weight r = (case leading_tag r of Some t \<Rightarrow> weight t | None \<Rightarrow> 0)"

definition spec_score :: "jstring list \<Rightarrow> int" where
  "spec_score results = max 0 (100 - sum_list (map item_weight results))"

section \<open>Character classes and string built-ins\<close>

definition is_digit :: "code_unit \<Rightarrow> bool" where       \<comment> \<open>\<open>\d\<close>, \<open>[0-9]\<close>\<close>
  "is_digit c = (0x30 \<le> c \<and> c \<le> 0x39)"

definition is_upper :: "code_unit \<Rightarrow> bool" where       \<comment> \<open>\<open>[A-Z]\<close>\<close>
  "is_upper c = (0x41 \<le> c \<and> c \<le> 0x5A)"

definition is_lower :: "code_unit \<Rightarrow> bool" where       \<comment> \<open>\<open>[a-z]\<close>\<close>
  "is_lower c = (0x61 \<le> c \<and> c \<le> 0x7A)"

definition is_alpha :: "code_unit \<Rightarrow> bool" where       \<comment> \<open>\<open>[A-Za-z]\<close>, also \<open>[A-Z]\<close> under the \<open>i\<close> flag\<close>
  "is_alpha c = (is_upper c \<or> is_lower c)"

definition is_word_char :: "code_unit \<Rightarrow> bool" where   \<comment> \<open>\<open>\w\<close>, which decides \<open>\b\<close>\<close>
  "is_word_char c = (is_alpha c \<or> is_digit c \<or> c = 0x5F)"

definition is_line_terminator :: "code_unit \<Rightarrow> bool" where
  "is_line_terminator c = (c = 0x0A \<or> c = 0x0D \<or> c = 0x2028 \<or> c = 0x2029)"

text \<open>
  White space and line terminators: the class \<open>\s\<close>, and what \<open>trim\<close> strips.
\<close>

definition is_space :: "code_unit \<Rightarrow> bool" where
  "is_space c =
     (c = 0x09 \<or> c = 0x0A \<or> c = 0x0B \<or> c = 0x0C \<or> c = 0x0D \<or> c = 0x20 \<or> c = 0xA0
      \<or> c = 0x1680 \<or> (0x2000 \<le> c \<and> c \<le> 0x200A) \<or> c = 0x2028 \<or> c = 0x2029
      \<or> c = 0x202F \<or> c = 0x205F \<or> c = 0x3000 \<or> c = 0xFEFF)"

definition to_upper :: "code_unit \<Rightarrow> code_unit" where
  "to_upper c = (if is_lower c then c - 0x20 else c)"

text \<open>
  A pattern character \<open>p\<close> that is an ASCII letter, under the \<open>i\<close> flag and without the
  \<open>u\<close> flag: the input unit is compared after both are moved to upper case, and a unit
  from 128 on is never moved below 128, so only the two ASCII letters match.
\<close>

definition ci_match :: "code_unit \<Rightarrow> code_unit \<Rightarrow> bool" where
  "ci_match p c = (c < 0x80 \<and> to_upper c = to_upper p)"

definition trim :: "jstring \<Rightarrow> jstring" where
  "trim s = rev (dropWhile is_space (rev (dropWhile is_space s)))"

text \<open>
  \<open>s.split(sep)\<close> for a separator of one code unit, or a regular expression that is one
  character class. The result is never empty: the empty string splits into one empty
  piece.
\<close>

fun cons_head :: "code_unit \<Rightarrow> jstring list \<Rightarrow> jstring list" where
  "cons_head x [] = [[x]]"
| "cons_head x (w # ws) = (x # w) # ws"

fun split_by :: "(code_unit \<Rightarrow> bool) \<Rightarrow> jstring \<Rightarrow> jstring list" where
  "split_by P [] = [[]]"
| "split_by P (x # xs) = (if P x then [] # split_by P xs else cons_head x (split_by P xs))"

text \<open>\<open>text.split("\n\n")\<close>: the separator is two line feeds, found from left to right.\<close>

fun split_blank_lines :: "jstring \<Rightarrow> jstring list" where
  "split_blank_lines [] = [[]]"
| "split_blank_lines [x] = [[x]]"
| "split_blank_lines (x # y # ys) =
     (if x = 0x0A \<and> y = 0x0A then [] # split_blank_lines ys
      else cons_head x (split_blank_lines (y # ys)))"

definition double_quote :: jstring where
  "double_quote = [0x22]"

text \<open>\<open>xs.join(sep)\<close>.\<close>

fun join :: "jstring \<Rightarrow> jstring list \<Rightarrow> jstring" where
  "join sep [] = []"
| "join sep [x] = x"
| "join sep (x # y # ys) = x @ sep @ join sep (y # ys)"

text \<open>A number in a template literal: its decimal digits.\<close>

definition digit_unit :: "nat \<Rightarrow> code_unit" where
  "digit_unit d = 0x30 + of_nat d"

fun decimal :: "nat \<Rightarrow> jstring" where
  "decimal n = (if n < 10 then [digit_unit n] else decimal (n div 10) @ [digit_unit (n mod 10)])"

declare decimal.simps [simp del]

definition decimal_int :: "int \<Rightarrow> jstring" where
  "decimal_int i = (if i < 0 then ascii ''-'' @ decimal (nat (- i)) else decimal (nat i))"

text \<open>
  A \<open>Set\<close> keeps its members in insertion order, each once; \<open>size\<close> is their number and
  spreading it into an array gives them in that order.
\<close>

definition set_add :: "'a \<Rightarrow> 'a list \<Rightarrow> 'a list" where
  "set_add x xs = (if x \<in> set xs then xs else xs @ [x])"

definition new_Set :: "'a list \<Rightarrow> 'a list" where
  "new_Set xs = fold set_add xs []"

section \<open>Regular expressions\<close>

text \<open>
  A position in the input is the code unit before it (none at the start) and the rest of
  the input. A regular expression maps a position to the positions where a match that
  starts there can end, in the order in which the backtracking matcher tries them: the
  first one is the match that \<open>match\<close> reports, and there is a match iff the list is not
  empty.
\<close>

type_synonym position = "code_unit option \<times> jstring"
type_synonym regex = "position \<Rightarrow> position list"

fun char_in :: "(code_unit \<Rightarrow> bool) \<Rightarrow> regex" where          \<comment> \<open>a class, once\<close>
  "char_in P (prev, []) = []"
| "char_in P (prev, x # xs) = (if P x then [(Some x, xs)] else [])"

fun star_in :: "(code_unit \<Rightarrow> bool) \<Rightarrow> regex" where         \<comment> \<open>a class under \<open>*\<close>, greedy\<close>
  "star_in P (prev, []) = [(prev, [])]"
| "star_in P (prev, x # xs) = (if P x then star_in P (Some x, xs) else []) @ [(prev, x # xs)]"

definition seq :: "regex \<Rightarrow> regex \<Rightarrow> regex" where
  "seq r1 r2 p = concat (map r2 (r1 p))"

definition alt :: "regex \<Rightarrow> regex \<Rightarrow> regex" where           \<comment> \<open>\<open>r1|r2\<close>\<close>
  "alt r1 r2 p = r1 p @ r2 p"

definition opt :: "regex \<Rightarrow> regex" where                     \<comment> \<open>\<open>r?\<close>, greedy\<close>
  "opt r p = r p @ [p]"

definition plus_in :: "(code_unit \<Rightarrow> bool) \<Rightarrow> regex" where      \<comment> \<open>a class under \<open>+\<close>\<close>
  "plus_in P = seq (char_in P) (star_in P)"

fun exactly :: "nat \<Rightarrow> regex \<Rightarrow> regex" where                \<comment> \<open>\<open>r{n}\<close>\<close>
  "exactly 0 r p = [p]"
| "exactly (Suc n) r p = concat (map (exactly n r) (r p))"

fun at_most :: "nat \<Rightarrow> regex \<Rightarrow> regex" where                \<comment> \<open>\<open>r{0,n}\<close>, greedy\<close>
  "at_most 0 r p = [p]"
| "at_most (Suc n) r p = concat (map (at_most n r) (r p)) @ [p]"

definition literal_ci :: "jstring \<Rightarrow> regex" where            \<comment> \<open>ASCII letters under the \<open>i\<close> flag\<close>
  "literal_ci w = foldr (\<lambda>c r. seq (char_in (ci_match c)) r) w (\<lambda>p. [p])"

definition line_start :: regex where                           \<comment> \<open>\<open>^\<close> under the \<open>m\<close> flag\<close>
  "line_start p = (case fst p of None \<Rightarrow> [p] | Some c \<Rightarrow> if is_line_terminator c then [p] else [])"

definition input_start :: regex where                          \<comment> \<open>\<open>^\<close> without the \<open>m\<close> flag\<close>
  "input_start p = (case fst p of None \<Rightarrow> [p] | Some c \<Rightarrow> [])"

definition word_boundary :: regex where                        \<comment> \<open>\<open>\b\<close>\<close>
  "word_boundary p =
     (let word_left = (case fst p of None \<Rightarrow> False | Some c \<Rightarrow> is_word_char c);
          word_right = (case snd p of [] \<Rightarrow> False | c # cs \<Rightarrow> is_word_char c)
      in if word_left \<noteq> word_right then [p] else [])"

definition lookahead :: "regex \<Rightarrow> regex" where               \<comment> \<open>\<open>(?=r)\<close>\<close>
  "lookahead r p = (if r p = [] then [] else [p])"

text \<open>\<open>re.test(s)\<close> tries every start position, the end of the input included.\<close>

fun regex_test_from :: "regex \<Rightarrow> code_unit option \<Rightarrow> jstring \<Rightarrow> bool" where
  "regex_test_from r prev [] = (r (prev, []) \<noteq> [])"
| "regex_test_from r prev (x # xs) = (r (prev, x # xs) \<noteq> [] \<or> regex_test_from r (Some x) xs)"

definition regex_test :: "regex \<Rightarrow> jstring \<Rightarrow> bool" where
  "regex_test r s = regex_test_from r None s"

text \<open>
  \<open>s.match(re)\<close> with the \<open>g\<close> flag: all matches from left to right, each starting at or
  after the end of the one before; \<open>null\<close> for none is the empty list here, and both
  callers treat the two alike (\<open>|| []\<close> in one, \<open>bullets && bullets.length > 0\<close> in the
  other). \<open>skip\<close> counts the code units of the last match that are still to be passed;
  after an empty match the search moves on by one code unit.
\<close>

fun match_all_from :: "regex \<Rightarrow> nat \<Rightarrow> code_unit option \<Rightarrow> jstring \<Rightarrow> jstring list" where
  "match_all_from r skip prev [] =
     (if skip = 0 \<and> r (prev, []) \<noteq> [] then [[]] else [])"
| "match_all_from r skip prev (x # xs) =
     (if 0 < skip then match_all_from r (skip - 1) (Some x) xs
      else (case r (prev, x # xs) of
              [] \<Rightarrow> match_all_from r 0 (Some x) xs
            | e # es \<Rightarrow>
                (let n = Suc (length xs) - length (snd e)
                 in take n (x # xs) # match_all_from r (n - 1) (Some x) xs)))"

definition match_all :: "regex \<Rightarrow> jstring \<Rightarrow> jstring list" where
  "match_all r s = match_all_from r 0 None s"

section \<open>The rule-based analyzers\<close>

definition is_bullet :: "code_unit \<Rightarrow> bool" where            \<comment> \<open>the class of the two bullet patterns\<close>
  "is_bullet c = (c = 0x2D \<or> c = bullet_glyph \<or> c = square_glyph \<or> c = 0x2A)"

definition bullet_regex :: regex where                         \<comment> \<open>lines 21 and 134, flags \<open>gm\<close>\<close>
  "bullet_regex = seq line_start (char_in is_bullet)"

text \<open>\<open>checkBulletPoints\<close> (lines 16-29).\<close>

definition long_paragraph_item :: "nat \<Rightarrow> jstring" where
  "long_paragraph_item i =
     orange_circle @ ascii '' Section '' @ decimal (i + 1) @ ascii '' has long paragraphs '' @ em_dash
       @ ascii '' use concise bullet points.''"

definition checkBulletPoints :: "jstring \<Rightarrow> jstring list" where
  "checkBulletPoints text =
     (let sections = split_blank_lines text
      in concat (map (\<lambda>(sec, i).
           let bulletCount = length (match_all bullet_regex sec);
               sentenceCount = length (match_all (char_in (\<lambda>c. c = 0x2E)) sec)
           in if 5 < sentenceCount \<and> bulletCount = 0 then [long_paragraph_item i] else [])
         (zip sections [0 ..< length sections])))"

text \<open>\<open>checkProjects\<close> (lines 31-35).\<close>

definition projects_item :: jstring where
  "projects_item =
     yellow_circle @ ascii '' Add a 'Projects' section to showcase your hands-on experience.''"

definition checkProjects :: "jstring \<Rightarrow> jstring list" where
  "checkProjects text =
     (if \<not> regex_test (literal_ci (ascii ''project'')) text then [projects_item] else [])"

text \<open>\<open>checkContactFormatting\<close> (lines 37-44). Both patterns are only asked whether they match.\<close>

definition email_local_class :: "code_unit \<Rightarrow> bool" where    \<comment> \<open>\<open>[A-Z0-9._%+-]\<close> with \<open>i\<close>\<close>
  "email_local_class c =
     (is_alpha c \<or> is_digit c \<or> c = 0x2E \<or> c = 0x5F \<or> c = 0x25 \<or> c = 0x2B \<or> c = 0x2D)"

definition email_domain_class :: "code_unit \<Rightarrow> bool" where   \<comment> \<open>\<open>[A-Z0-9.-]\<close> with \<open>i\<close>\<close>
  "email_domain_class c = (is_alpha c \<or> is_digit c \<or> c = 0x2E \<or> c = 0x2D)"

definition email_regex :: regex where
  "email_regex =
     seq word_boundary (seq (plus_in email_local_class) (seq (char_in (\<lambda>c. c = 0x40))
       (seq (plus_in email_domain_class) (seq (char_in (\<lambda>c. c = 0x2E))
         (seq (exactly 2 (char_in is_alpha)) (seq (star_in is_alpha) word_boundary))))))"

definition phone_separator :: "code_unit \<Rightarrow> bool" where      \<comment> \<open>\<open>[-.\s]\<close>\<close>
  "phone_separator c = (c = 0x2D \<or> c = 0x2E \<or> is_space c)"

definition phone_regex :: regex where
  "phone_regex =
     seq (opt (seq (opt (char_in (\<lambda>c. c = 0x2B)))
                (seq (seq (char_in is_digit) (at_most 2 (char_in is_digit))) (opt (char_in phone_separator)))))
         (exactly 10 (char_in is_digit))"

definition contact_item :: jstring where
  "contact_item = red_circle @ ascii '' Missing proper contact information (email/phone).''"

definition checkContactFormatting :: "jstring \<Rightarrow> jstring list" where
  "checkContactFormatting text =
     (let emailMatch = regex_test email_regex text;
          phoneMatch = regex_test phone_regex text
      in if \<not> emailMatch \<or> \<not> phoneMatch then [contact_item] else [])"

text \<open>
  \<open>checkHeadings\<close> (lines 46-55). \<open>titleCase\<close> comes from the package \<open>title-case\<close> and is
  a parameter.
\<close>

definition heading_regex :: regex where
  "heading_regex =
     seq line_start (seq (char_in is_upper) (seq (plus_in (\<lambda>c. is_alpha c \<or> is_space c))
       (lookahead (alt (char_in (\<lambda>c. c = 0x0A)) (char_in (\<lambda>c. c = 0x3A))))))"

definition heading_item :: "jstring \<Rightarrow> jstring \<Rightarrow> jstring" where
  "heading_item h t =
     yellow_circle @ ascii '' Heading '' @ double_quote @ h @ double_quote @ ascii '' should be ''
       @ double_quote @ t @ double_quote @ ascii '' for consistency.''"

definition checkHeadings :: "(jstring \<Rightarrow> jstring) \<Rightarrow> jstring \<Rightarrow> jstring list" where
  "checkHeadings titleCase text =
     (let headings = match_all heading_regex text
      in concat (map (\<lambda>h. if h \<noteq> titleCase h then [heading_item h (titleCase h)] else [])
           headings))"

text \<open>\<open>checkAchievements\<close> (lines 57-65).\<close>

definition achievement_keyword_regex :: regex where
  "achievement_keyword_regex =
     alt (literal_ci (ascii ''experience'')) (alt (literal_ci (ascii ''achievement''))
       (alt (literal_ci (ascii ''project'')) (literal_ci (ascii ''work''))))"

definition quantity_regex :: regex where                       \<comment> \<open>\<open>\d+%|\d+\+\<close>\<close>
  "quantity_regex =
     alt (seq (plus_in is_digit) (char_in (\<lambda>c. c = 0x25))) (seq (plus_in is_digit) (char_in (\<lambda>c. c = 0x2B)))"

definition achievement_item :: jstring where
  "achievement_item =
     green_circle @ ascii '' Quantify achievements '' @ em_dash
       @ ascii '' add measurable results like '' @ double_quote
       @ ascii ''Improved efficiency by 20%'' @ double_quote @ ascii ''.''"

definition flags_line :: "jstring \<Rightarrow> bool" where
  "flags_line line =
     (regex_test achievement_keyword_regex line \<and> \<not> regex_test quantity_regex line)"

definition checkAchievements :: "jstring \<Rightarrow> jstring list" where
  "checkAchievements text =
     (let lines = split_by (\<lambda>c. c = 0x0A) text
      in concat (map (\<lambda>line. if flags_line line then [achievement_item] else []) lines))"

text \<open>\<open>checkFileCompatibility\<close> (lines 67-71).\<close>

definition compatibility_item :: jstring where
  "compatibility_item =
     red_circle @ ascii '' File may be image-based (no readable text). Use text-based PDF or DOCX.''"

definition checkFileCompatibility :: "jstring \<Rightarrow> jstring list" where
  "checkFileCompatibility text = (if length text < 200 then [compatibility_item] else [])"

section \<open>Numbers and the packages the analyzers call\<close>

text \<open>
  Exceptions and rejected promises are values: what the file system and the PDF packages
  throw is theirs to choose; a \<open>TypeError\<close> is what reading a property of \<open>undefined\<close>,
  or calling it, throws; a \<open>RangeError\<close> is what a call throws that spreads more
  arguments than the engine has room for.
\<close>

datatype error = SystemError jstring | LibraryError jstring | TypeError | RangeError

text \<open>
  A text run as \<open>getTextContent\<close> of \<open>pdfjs-dist\<close> reports it: the font name, the
  transform matrix of six numbers (\<open>transform[0]\<close> is the horizontal scale,
  \<open>transform[4]\<close> the horizontal translation) and the string. The analyzer guards both
  \<open>fontName\<close> and \<open>transform\<close>, so either may be missing.
\<close>

record text_item =
  fontName :: "jstring option"
  transform :: "(real \<times> real \<times> real \<times> real \<times> real \<times> real) option"
  str :: jstring

text \<open>
  What a call returns: a promise, settled with a value or rejected with an error, or a
  value at once. \<open>await\<close> waits for a promise and leaves any other value as it is.
\<close>

datatype 'a returned = Promise "error + 'a" | Immediate 'a

fun await :: "'a returned \<Rightarrow> error + 'a" where
  "await (Promise outcome) = outcome"
| "await (Immediate v) = Inr v"

text \<open>
  Reading the property \<open>items\<close> off what the call returned, with no \<open>await\<close>: a promise
  has no such property, so the read gives \<open>undefined\<close>.
\<close>

fun items_property :: "text_item list returned \<Rightarrow> text_item list option" where
  "items_property (Promise outcome) = None"
| "items_property (Immediate its) = Some its"

record pdf_page =
  getTextContent :: "text_item list returned"

record pdf_document =
  numPages :: nat
  getPage :: "nat \<Rightarrow> error + pdf_page"     \<comment> \<open>\<open>await pdf.getPage(i)\<close>\<close>

record pdf_data =
  text_of :: "jstring option"               \<comment> \<open>\<open>data.text\<close>\<close>

text \<open>
  The world outside the module: the file system, the packages \<open>pdf-parse\<close>,
  \<open>pdfjs-dist\<close>, \<open>title-case\<close> and \<open>string-similarity\<close>, and the built-ins whose tables
  are not part of the program (\<open>toLowerCase\<close>, the rounding of a product to a double,
  the printing of a number from \<open>10\<^sup>2\<^sup>1\<close> on), and the number of arguments the
  engine lets one call spread. \<open>getDocument\<close> is the outcome of line 102 as a whole:
  the \<open>TypeError\<close> of the call when the namespace that line 4 imports has no member
  \<open>getDocument\<close>, what the promise is rejected with, or the document.
\<close>

record world =
  readFileSync :: "jstring \<Rightarrow> error + 8 word list"
  pdf_parse :: "8 word list \<Rightarrow> error + pdf_data"          \<comment> \<open>\<open>await pdf(buffer)\<close>\<close>
  getDocument :: "8 word list \<Rightarrow> error + pdf_document"   \<comment> \<open>\<open>await getDocument({data}).promise\<close>\<close>
  titleCase :: "jstring \<Rightarrow> jstring"
  compareTwoStrings :: "jstring \<Rightarrow> jstring \<Rightarrow> real"
  toLowerCase :: "jstring \<Rightarrow> jstring"
  to_double :: "real \<Rightarrow> real"
  numberToString :: "real \<Rightarrow> jstring"
  max_spread :: nat

text \<open>\<open>Math.round\<close>: the nearest integer, a tie going up.\<close>

definition math_round :: "real \<Rightarrow> int" where
  "math_round x = \<lfloor>x + 1 / 2\<rfloor>"

text \<open>
  \<open>Math.max\<close> and \<open>Math.min\<close> of no argument are the two infinities, so the difference
  of the two and its comparison need them.
\<close>

datatype number = NaN | MinusInfinity | Finite int | PlusInfinity

fun math_max :: "int list \<Rightarrow> number" where
  "math_max [] = MinusInfinity"
| "math_max (x # xs) = Finite (fold max xs x)"

fun math_min :: "int list \<Rightarrow> number" where
  "math_min [] = PlusInfinity"
| "math_min (x # xs) = Finite (fold min xs x)"

fun minus_number :: "number \<Rightarrow> number \<Rightarrow> number" where
  "minus_number NaN b = NaN"
| "minus_number a NaN = NaN"
| "minus_number (Finite a) (Finite b) = Finite (a - b)"
| "minus_number (Finite a) MinusInfinity = PlusInfinity"
| "minus_number (Finite a) PlusInfinity = MinusInfinity"
| "minus_number MinusInfinity MinusInfinity = NaN"
| "minus_number MinusInfinity b = MinusInfinity"
| "minus_number PlusInfinity PlusInfinity = NaN"
| "minus_number PlusInfinity b = PlusInfinity"

fun greater_number :: "number \<Rightarrow> int \<Rightarrow> bool" where    \<comment> \<open>\<open>a > b\<close> for a finite \<open>b\<close>\<close>
  "greater_number NaN b = False"
| "greater_number MinusInfinity b = False"
| "greater_number (Finite a) b = (b < a)"
| "greater_number PlusInfinity b = True"

text \<open>
  \<open>x.toFixed(2)\<close>: the sign, then the integer \<open>n\<close> for which \<open>n / 100\<close> is nearest to the
  magnitude (the larger one at a tie), printed with the last two digits behind the point.
  From \<open>10\<^sup>2\<^sup>1\<close> on the number is printed as \<open>String(x)\<close> prints it.
\<close>

definition two_digits :: "nat \<Rightarrow> jstring" where
  "two_digits n = [digit_unit (n div 10), digit_unit (n mod 10)]"

definition fixed2 :: "nat \<Rightarrow> jstring" where
  "fixed2 n = decimal (n div 100) @ ascii ''.'' @ two_digits (n mod 100)"

definition toFixed2 :: "world \<Rightarrow> real \<Rightarrow> jstring" where
  "toFixed2 w x =
     (let s = (if x < 0 then ascii ''-'' else []); y = \<bar>x\<bar>
      in if 10 ^ 21 \<le> y then s @ numberToString w y
         else s @ fixed2 (nat \<lfloor>y * 100 + 1 / 2\<rfloor>))"

section \<open>Keyword match and grammar heuristics\<close>

text \<open>
  \<open>checkKeywordMatch\<close> (lines 73-77). An argument left out is the parameter's default,
  the empty string. The product \<open>score * 100\<close> is a product of doubles, rounded to a
  double.
\<close>

definition keyword_item :: "jstring \<Rightarrow> jstring" where
  "keyword_item percentage =
     green_circle @ ascii '' Keyword match score: '' @ percentage @ ascii ''%''"

definition checkKeywordMatch :: "world \<Rightarrow> jstring \<Rightarrow> jstring option \<Rightarrow> jstring list" where
  "checkKeywordMatch w text jobDescArg =
     (let jobDesc = (case jobDescArg of None \<Rightarrow> [] | Some j \<Rightarrow> j)
      in if jobDesc = [] then []
         else (let score = compareTwoStrings w (toLowerCase w text) (toLowerCase w jobDesc)
               in [keyword_item (toFixed2 w (to_double w (score * 100)))]))"

text \<open>\<open>checkGrammarHeuristics\<close> (lines 80-95).\<close>

definition sentence_end :: "code_unit \<Rightarrow> bool" where         \<comment> \<open>\<open>[.!?]\<close>\<close>
  "sentence_end c = (c = 0x2E \<or> c = 0x21 \<or> c = 0x3F)"

definition sentences_of :: "jstring \<Rightarrow> jstring list" where
  "sentences_of text = filter (\<lambda>s. 0 < length (trim s)) (split_by sentence_end text)"

definition is_long_sentence :: "jstring \<Rightarrow> bool" where
  "is_long_sentence s = (25 < length (split_by (\<lambda>c. c = 0x20) s))"

definition starts_lowercase :: "jstring \<Rightarrow> bool" where
  "starts_lowercase s = regex_test (seq input_start (char_in is_lower)) (trim s)"

definition long_sentences_item :: "nat \<Rightarrow> jstring" where
  "long_sentences_item n =
     orange_circle @ ascii '' Found '' @ decimal n @ ascii '' long sentences '' @ em_dash
       @ ascii '' consider splitting for clarity.''"

definition lowercase_item :: jstring where
  "lowercase_item =
     orange_circle @ ascii '' Some sentences start with lowercase letters '' @ em_dash
       @ ascii '' check capitalization.''"

definition grammar_ok_item :: jstring where
  "grammar_ok_item = check_mark @ ascii '' No major grammar or structure issues found.''"

definition checkGrammarHeuristics :: "jstring \<Rightarrow> jstring list" where
  "checkGrammarHeuristics text =
     (let sentences = sentences_of text;
          longSentences = filter is_long_sentence sentences;
          issues1 = (if 5 < length longSentences
                     then [long_sentences_item (length longSentences)] else []);
          lowercaseStart = filter starts_lowercase sentences;
          issues2 = issues1 @ (if 0 < length lowercaseStart then [lowercase_item] else [])
      in if length issues2 = 0 then issues2 @ [grammar_ok_item] else issues2)"

text \<open>
  The words of a sentence as the specification counts them: the maximal runs of code
  units that are not white space.
\<close>

definition whitespace_words :: "jstring \<Rightarrow> jstring list" where
  "whitespace_words s = filter (\<lambda>w. w \<noteq> []) (split_by is_space s)"

section \<open>Formatting consistency\<close>

text \<open>
  \<open>checkFormattingConsistency\<close> (lines 98-148). The loop over the pages keeps the set
  of font names, the set of font sizes and the sequence of left offsets; any step of it
  may throw.
\<close>

record layout =
  fonts :: "jstring list"
  fontSizes :: "int list"
  leftPositions :: "int list"

definition visit_item :: "text_item \<Rightarrow> layout \<Rightarrow> layout" where
  "visit_item item st =
     (let st1 = (case fontName item of
                   None \<Rightarrow> st
                 | Some f \<Rightarrow> if f \<noteq> [] then st\<lparr>fonts := set_add f (fonts st)\<rparr> else st)
      in case transform item of
           None \<Rightarrow> st1
         | Some (a, b, c, d, e, f) \<Rightarrow>
             st1\<lparr>fontSizes := set_add (math_round a) (fontSizes st1),
                 leftPositions := leftPositions st1 @ [math_round e]\<rparr>)"

fun visit_pages :: "pdf_document \<Rightarrow> nat list \<Rightarrow> layout \<Rightarrow> error + layout" where
  "visit_pages doc [] st = Inr st"
| "visit_pages doc (i # rest) st =
     (case getPage doc i of
        Inl e \<Rightarrow> Inl e
      | Inr page \<Rightarrow>
          (case await (getTextContent page) of
             Inl e \<Rightarrow> Inl e
           | Inr textContent \<Rightarrow> visit_pages doc rest (fold visit_item textContent st)))"

definition collect_layout :: "pdf_document \<Rightarrow> error + layout" where
  "collect_layout doc =
     visit_pages doc [1 ..< Suc (numPages doc)] \<lparr>fonts = [], fontSizes = [], leftPositions = []\<rparr>"

definition fonts_item :: jstring where
  "fonts_item =
     warning_sign @ ascii '' Multiple fonts detected '' @ em_dash
       @ ascii '' use one consistent font (e.g., Calibri, Arial).''"

definition font_sizes_item :: jstring where
  "font_sizes_item =
     warning_sign @ ascii '' Too many font sizes '' @ em_dash @ ascii '' use 10'' @ en_dash
       @ ascii ''12 pt for text, 14'' @ en_dash @ ascii ''16 pt for headings.''"

definition alignment_item :: jstring where
  "alignment_item =
     warning_sign @ ascii '' Inconsistent text alignment '' @ em_dash
       @ ascii '' keep left margins uniform.''"

definition bullet_styles_item :: jstring where
  "bullet_styles_item =
     warning_sign @ ascii '' Different bullet styles used '' @ em_dash
       @ ascii '' stick to one format.''"

definition formatting_failure_item :: jstring where
  "formatting_failure_item =
     cross_mark @ ascii '' Could not analyze formatting (maybe an image-based PDF).''"

definition formatting_ok_item :: jstring where
  "formatting_ok_item = check_mark @ ascii '' Formatting appears consistent across sections.''"

definition leftVar :: "int list \<Rightarrow> number" where
  "leftVar positions = minus_number (math_max positions) (math_min positions)"

text \<open>
  The two flags of lines 122-126, and the three of lines 122-130, pushed in this order.
\<close>

definition font_flags :: "layout \<Rightarrow> jstring list" where
  "font_flags st =
     (if 2 < length (fonts st) then [fonts_item] else [])
     @ (if 4 < length (fontSizes st) then [font_sizes_item] else [])"

definition layout_flags :: "layout \<Rightarrow> jstring list" where
  "layout_flags st =
     font_flags st
     @ (if greater_number (leftVar (leftPositions st)) 30 then [alignment_item] else [])"

text \<open>Lines 133-139, once the items of page 1 are at hand.\<close>

definition bullet_flags :: "text_item list \<Rightarrow> jstring list" where
  "bullet_flags its =
     (let text = join [0x0A] (map str its);
          bullets = match_all bullet_regex text
      in if 0 < length bullets
         then (let bulletTypes = new_Set bullets
               in if 1 < length bulletTypes then [bullet_styles_item] else [])
         else [])"

text \<open>
  The body of the \<open>try\<close>: the issues pushed so far, and the exception if one was thrown.
  Line 128 spreads the left offsets into the arguments of \<open>Math.max\<close> and \<open>Math.min\<close>,
  after the two font flags are pushed, and throws when they are more than the engine lets
  a call spread. Line 133 reads \<open>items\<close> off what \<open>page1.getTextContent()\<close> returned,
  without \<open>await\<close>, and calls \<open>map\<close> on it.
\<close>

definition formatting_try :: "world \<Rightarrow> jstring \<Rightarrow> jstring list \<times> error option" where
  "formatting_try w filePath =
     (case readFileSync w filePath of
        Inl e \<Rightarrow> ([], Some e)
      | Inr data \<Rightarrow>
          (case getDocument w data of
             Inl e \<Rightarrow> ([], Some e)
           | Inr doc \<Rightarrow>
               (case collect_layout doc of
                  Inl e \<Rightarrow> ([], Some e)
                | Inr st \<Rightarrow>
                    if max_spread w < length (leftPositions st)
                    then (font_flags st, Some RangeError)
                    else (let issues = layout_flags st
                          in case getPage doc 1 of
                               Inl e \<Rightarrow> (issues, Some e)
                             | Inr page1 \<Rightarrow>
                                 (case items_property (getTextContent page1) of
                                    None \<Rightarrow> (issues, Some TypeError)
                                  | Some its \<Rightarrow> (issues @ bullet_flags its, None))))))"

definition checkFormattingConsistency :: "world \<Rightarrow> jstring \<Rightarrow> jstring list" where
  "checkFormattingConsistency w filePath =
     (let (tried, thrown) = formatting_try w filePath;
          issues = (case thrown of None \<Rightarrow> tried | Some err \<Rightarrow> tried @ [formatting_failure_item])
      in if length issues = 0 then issues @ [formatting_ok_item] else issues)"

section \<open>The review\<close>

text \<open>\<open>parsePDF\<close> (lines 9-13): \<open>data.text || ""\<close>.\<close>

definition parsePDF :: "world \<Rightarrow> jstring \<Rightarrow> error + jstring" where
  "parsePDF w filePath =
     (case readFileSync w filePath of
        Inl e \<Rightarrow> Inl e
      | Inr buffer \<Rightarrow>
          (case pdf_parse w buffer of
             Inl e \<Rightarrow> Inl e
           | Inr data \<Rightarrow> Inr (case text_of data of None \<Rightarrow> [] | Some t \<Rightarrow> t)))"

record review_result =
  score :: int
  results :: "jstring list"

text \<open>
  \<open>reviewResume\<close> (lines 168-197). The console is a list of lines, returned with the
  outcome: an error when the promise is rejected, otherwise what the promise is fulfilled
  with, \<open>undefined\<close> (what \<open>console.log\<close> returns) or the result.
\<close>

definition all_checks :: "world \<Rightarrow> jstring \<Rightarrow> jstring option \<Rightarrow> jstring list" where
  "all_checks w text jobDesc =
     checkBulletPoints text @ checkProjects text @ checkContactFormatting text
     @ checkHeadings (titleCase w) text @ checkAchievements text @ checkFileCompatibility text
     @ checkKeywordMatch w text jobDesc @ checkGrammarHeuristics text"

definition summary_log :: "jstring list \<Rightarrow> int \<Rightarrow> jstring list" where
  "summary_log rs sc =
     [[0x0A] @ clipboard_icon @ ascii '' Resume Review Summary'',
      ascii ''========================='']
     @ map (\<lambda>r. [bullet_glyph] @ ascii '' '' @ r) rs
     @ [ascii ''========================='',
        chart_icon @ ascii '' Overall Resume Score: '' @ decimal_int sc @ ascii ''/100'',
        ascii ''========================='' @ [0x0A]]"

definition unreadable_log :: jstring where
  "unreadable_log = cross_mark @ ascii '' Could not read text from file.''"

definition reviewResume ::
  "world \<Rightarrow> jstring \<Rightarrow> jstring option \<Rightarrow> jstring list \<times> (error + review_result option)" where
  "reviewResume w filePath jobDescArg =
     (let jobDesc = (case jobDescArg of None \<Rightarrow> [] | Some j \<Rightarrow> j);
          console = [page_icon @ ascii '' Analyzing resume: '' @ filePath]
      in case parsePDF w filePath of
           Inl e \<Rightarrow> (console, Inl e)
         | Inr text \<Rightarrow>
             if text = [] then (console @ [unreadable_log], Inr None)
             else (let rs = all_checks w text (Some jobDesc)
                            @ checkFormattingConsistency w filePath;
                       sc = calculateScore rs
                   in (console @ summary_log rs sc, Inr (Some \<lparr>score = sc, results = rs\<rparr>))))"

section \<open>The specification's words\<close>

text \<open>
  A text contains a word as a case-insensitive substring: move both to lower case and
  look for the one as a contiguous part of the other. None of the letters of the words
  the analyzers look for has a case variant outside ASCII.
\<close>

definition to_lower :: "code_unit \<Rightarrow> code_unit" where
  "to_lower c = (if is_upper c then c + 0x20 else c)"

definition contains_ignoring_case :: "jstring \<Rightarrow> jstring \<Rightarrow> bool" where
  "contains_ignoring_case w text = sublist (map to_lower w) (map to_lower text)"

text \<open>A line contains a percentage: a digit with the percent sign right behind it.\<close>

fun has_percentage :: "jstring \<Rightarrow> bool" where
  "has_percentage (d # p # rest) = (is_digit d \<and> p = 0x25 \<or> has_percentage (p # rest))"
| "has_percentage [d] = False"
| "has_percentage [] = False"

definition example_line :: jstring where
  "example_line = ascii ''This project improved output by 20%''"

text \<open>
  The grammar heuristic's two conditions, and the texts of the examples: \<open>k\<close> sentences
  of \<open>n\<close> one-letter words each, the words a space apart, every sentence closed by a
  full stop and the next one a space behind it.
\<close>

definition long_count :: "jstring \<Rightarrow> nat" where
  "long_count text = length (filter is_long_sentence (sentences_of text))"

definition lowercase_found :: "jstring \<Rightarrow> bool" where
  "lowercase_found text = list_ex starts_lowercase (sentences_of text)"

definition many_words :: "jstring \<Rightarrow> bool" where
  "many_words s = (25 < length (whitespace_words s))"

definition words_sentence :: "nat \<Rightarrow> jstring" where
  "words_sentence n = join (ascii '' '') (replicate n (ascii ''A''))"

definition sentences_text :: "nat \<Rightarrow> nat \<Rightarrow> jstring" where
  "sentences_text k n = join (ascii ''. '') (replicate k (words_sentence n)) @ ascii ''.''"

text \<open>
  Space characters in a sentence, and the sentences with 25 of them or more: counted
  between the first and the last code unit that is not white space, or over the whole
  sentence, with the white space it starts and ends with.
\<close>

definition spaces :: "jstring \<Rightarrow> nat" where
  "spaces s = count_list s 0x20"

definition long_when_trimmed :: "jstring \<Rightarrow> nat" where
  "long_when_trimmed input = length (filter (\<lambda>s. 25 \<le> spaces (trim s)) (sentences_of input))"

definition long_with_margins :: "jstring \<Rightarrow> nat" where
  "long_with_margins input = length (filter (\<lambda>s. 25 \<le> spaces s) (sentences_of input))"

text \<open>Sentences whose one-letter words stand one to a line.\<close>

definition lines_sentence :: "nat \<Rightarrow> jstring" where
  "lines_sentence n = join [0x0A] (replicate n (ascii ''A''))"

definition lines_text :: "nat \<Rightarrow> nat \<Rightarrow> jstring" where
  "lines_text k n = join (ascii ''. '') (replicate k (lines_sentence n)) @ ascii ''.''"

text \<open>
  What the keyword check takes from outside: the similarity of the two lower-cased
  strings, and the rounding of a real number to a double, which is monotone and leaves 0
  and 100 as they are.
\<close>

definition similarity :: "world \<Rightarrow> jstring \<Rightarrow> jstring \<Rightarrow> real" where
  "similarity w text jobDesc = compareTwoStrings w (toLowerCase w text) (toLowerCase w jobDesc)"

definition double_rounding :: "world \<Rightarrow> bool" where
  "double_rounding w = (mono (to_double w) \<and> to_double w 0 = 0 \<and> to_double w 100 = 100)"

text \<open>A world to run the analyzers in: no file can be read, every similarity is a half.\<close>

definition example_world :: world where
  "example_world =
     \<lparr>readFileSync = (\<lambda>p. Inl (SystemError (ascii ''ENOENT''))),
      pdf_parse = (\<lambda>b. Inl (LibraryError [])),
      getDocument = (\<lambda>b. Inl (LibraryError [])),
      titleCase = (\<lambda>s. s),
      compareTwoStrings = (\<lambda>a b. if a = b then 1 else 1 / 2),
      toLowerCase = map to_lower,
      to_double = (\<lambda>x. x),
      numberToString = (\<lambda>x. []),
      max_spread = 65535\<rparr>"

section \<open>Documents and worlds of the examples\<close>

text \<open>
  A text run in a given font at a given left offset; a page whose \<open>getTextContent\<close>
  returns a promise of its runs, as that of \<open>pdfjs-dist\<close> does; a document of one such
  page; and a world in which the file is read, \<open>pdf-parse\<close> extracts the given text and
  \<open>getDocument\<close> opens the given document.
\<close>

definition text_run :: "jstring \<Rightarrow> real \<Rightarrow> text_item" where
  "text_run font x = \<lparr>fontName = Some font, transform = Some (12, 0, 0, 12, x, 700), str = ascii ''Hello''\<rparr>"

definition promised_page :: "text_item list \<Rightarrow> pdf_page" where
  "promised_page its = \<lparr>getTextContent = Promise (Inr its)\<rparr>"

definition one_page_document :: "text_item list \<Rightarrow> pdf_document" where
  "one_page_document its =
     \<lparr>numPages = 1,
      getPage = (\<lambda>i. if i = 1 then Inr (promised_page its)
                     else Inl (LibraryError (ascii ''Invalid page request'')))\<rparr>"

definition pdf_world :: "jstring option \<Rightarrow> pdf_document \<Rightarrow> world" where
  "pdf_world extracted doc =
     example_world\<lparr>readFileSync := (\<lambda>p. Inr [0x25, 0x50, 0x44, 0x46]),
                   pdf_parse := (\<lambda>b. Inr \<lparr>text_of = extracted\<rparr>),
                   getDocument := (\<lambda>b. Inr doc)\<rparr>"

definition three_fonts :: "text_item list" where
  "three_fonts = [text_run (ascii ''Arial'') 72, text_run (ascii ''Times'') 72, text_run (ascii ''Courier'') 72]"

definition one_font :: "text_item list" where
  "one_font = [text_run (ascii ''Arial'') 72]"

definition resume_path :: jstring where
  "resume_path = ascii ''cv.pdf''"





text \<open>The first line of the console, written before anything is read.\<close>

definition analyzing_log :: "jstring \<Rightarrow> jstring" where
  "analyzing_log filePath = page_icon @ ascii '' Analyzing resume: '' @ filePath"

section \<open>The scorer computes the weighted deduction\<close>

lemma startsWith_two:
  "startsWith r [a, b] = (\<exists>rest. r = a # b # rest)"
  by (cases r; cases "tl r") auto

lemma startsWith_one:
  "startsWith r [a] = (\<exists>rest. r = a # rest)"
  by (cases r) auto

lemma item_deduction:
  "fold (deduct r) (map fst deductions) sc = sc - item_weight r"
  by (auto simp: deductions_def deduct_def item_weight_def leading_tag_def tag_vocabulary_def
      red_circle_def warning_sign_def orange_circle_def yellow_circle_def green_circle_def
      check_mark_def cross_mark_def startsWith_two startsWith_one)

lemma fold_deductions:
  "fold (\<lambda>r sc. fold (deduct r) (map fst deductions) sc) rs sc
     = sc - sum_list (map item_weight rs)"
  by (induction rs arbitrary: sc) (simp_all add: item_deduction)

lemma item_weight_nonneg: "0 \<le> item_weight r"
proof (cases "leading_tag r")
  case None
  then show ?thesis by (simp add: item_weight_def)
next
  case (Some t)
  then show ?thesis by (cases t) (simp_all add: item_weight_def)
qed

lemma sum_item_weight_nonneg: "0 \<le> sum_list (map item_weight rs)"
  by (induction rs) (simp_all add: item_weight_nonneg)

lemma leading_tag_unique:
  "startsWith r (icon_of t) \<Longrightarrow> leading_tag r = Some t"
  by (cases t)
     (auto simp: leading_tag_def tag_vocabulary_def red_circle_def warning_sign_def
       orange_circle_def yellow_circle_def green_circle_def check_mark_def cross_mark_def
       startsWith_two startsWith_one)

text \<open>
  C1. For every feedback sequence the scorer returns
  \<open>max 0 (100 - \<Sum> weight (leading tag of the item))\<close>, with the weights 15, 10, 7 and 5
  for the red circle, the warning sign, the orange and the yellow circle and 0 for the
  green circle, the check mark and the cross mark. An item that starts with the icon of a
  tag has that tag and no other, so it deducts once, its own tag's weight. The empty
  sequence scores 100 and every sc lies in the closed range from 0 to 100.
\<close>

theorem calculateScore_weighted_deduction:
  "calculateScore rs = max 0 (100 - sum_list (map item_weight rs))
   \<and> calculateScore rs = spec_score rs
   \<and> (\<forall>r t. startsWith r (icon_of t) \<longrightarrow> leading_tag r = Some t \<and> item_weight r = weight t)
   \<and> map weight [Red, Warning, Orange, Yellow, Green, CheckMark, CrossMark] = [15, 10, 7, 5, 0, 0, 0]
   \<and> calculateScore [] = 100
   \<and> 0 \<le> calculateScore rs \<and> calculateScore rs \<le> 100"
proof -
  have eq: "calculateScore rs = max 0 (100 - sum_list (map item_weight rs))"
    by (simp add: calculateScore_def fold_deductions)
  have once: "\<forall>r t. startsWith r (icon_of t) \<longrightarrow> leading_tag r = Some t \<and> item_weight r = weight t"
    by (simp add: leading_tag_unique item_weight_def)
  have empty: "calculateScore [] = 100"
    by (simp add: calculateScore_def)
  have bounds: "0 \<le> calculateScore rs \<and> calculateScore rs \<le> 100"
    using sum_item_weight_nonneg [of rs] by (simp add: eq)
  show ?thesis
    using eq once empty bounds by (simp add: spec_score_def)
qed

theorem calculateScore_weighted_deduction_witness:
  "calculateScore [red_circle @ ascii '' a'', orange_circle, yellow_circle @ ascii ''b'',
                   green_circle, ascii ''plain''] = 73
   \<and> startsWith (red_circle @ ascii '' a'') (icon_of Red)
   \<and> leading_tag (red_circle @ ascii '' a'') = Some Red
   \<and> item_weight (red_circle @ ascii '' a'') = 15"
proof -
  let ?rs = "[red_circle @ ascii '' a'', orange_circle, yellow_circle @ ascii ''b'',
              green_circle, ascii ''plain'']"
  have s: "startsWith (red_circle @ ascii '' a'') (icon_of Red)"
    by (simp add: red_circle_def)
  have w: "sum_list (map item_weight ?rs) = 27"
    by (simp add: item_weight_def leading_tag_def tag_vocabulary_def red_circle_def
        warning_sign_def orange_circle_def yellow_circle_def green_circle_def check_mark_def
        cross_mark_def ascii_def)
  note inst = calculateScore_weighted_deduction [of ?rs]
  from inst w have sc: "calculateScore ?rs = 73"
    by simp
  from inst have "startsWith (red_circle @ ascii '' a'') (icon_of Red) \<longrightarrow>
      leading_tag (red_circle @ ascii '' a'') = Some Red
      \<and> item_weight (red_circle @ ascii '' a'') = weight Red"
    by blast
  with s sc show ?thesis
    by simp
qed

section \<open>Projects and achievements\<close>

lemma ci_match_lower:
  "is_lower p \<Longrightarrow> ci_match p c = (to_lower c = p)"
  unfolding ci_match_def to_upper_def to_lower_def is_lower_def is_upper_def
  by (auto; unat_arith)

lemma literal_ci_Nil: "literal_ci [] p = [p]"
  by (simp add: literal_ci_def)

lemma literal_ci_Cons: "literal_ci (c # cs) p = concat (map (literal_ci cs) (char_in (ci_match c) p))"
  by (simp add: literal_ci_def seq_def)

lemma literal_ci_matches:
  "list_all is_lower w \<Longrightarrow> (literal_ci w (prev, s) \<noteq> []) = prefix w (map to_lower s)"
proof (induction w arbitrary: prev s)
  case Nil
  then show ?case by (simp add: literal_ci_Nil)
next
  case (Cons c cs)
  show ?case
  proof (cases s)
    case Nil
    then show ?thesis by (simp add: literal_ci_Cons)
  next
    case (Cons x xs)
    with Cons.prems Cons.IH [of "Some x" xs] show ?thesis
      by (auto simp: literal_ci_Cons ci_match_lower)
  qed
qed

lemma regex_test_from_literal_ci:
  "list_all is_lower w \<Longrightarrow> regex_test_from (literal_ci w) prev s = sublist w (map to_lower s)"
proof (induction s arbitrary: prev)
  case Nil
  then show ?case by (cases w) (simp_all add: literal_ci_Nil literal_ci_Cons)
next
  case (Cons x xs)
  then show ?case
    by (cases w) (simp_all add: literal_ci_matches sublist_Cons_right literal_ci_Nil)
qed

lemma lower_project: "list_all is_lower (ascii ''project'')"
  by (simp add: ascii_def is_lower_def)

lemma to_lower_project: "map to_lower (ascii ''project'') = ascii ''project''"
  by (simp add: ascii_def to_lower_def is_upper_def)

lemma seq_matches: "(seq r1 r2 p \<noteq> []) = (\<exists>q \<in> set (r1 p). r2 q \<noteq> [])"
  by (auto simp: seq_def)

lemma star_in_self: "p \<in> set (star_in P p)"
  by (cases p; cases "snd p") auto

lemma plus_in_first: "P x \<Longrightarrow> (Some x, xs) \<in> set (plus_in P (prev, x # xs))"
  by (simp add: plus_in_def seq_def star_in_self)

lemma quantity_regex_percent:
  "is_digit d \<Longrightarrow> quantity_regex (prev, d # 0x25 # rest) \<noteq> []"
proof -
  assume "is_digit d"
  then have "(Some d, 0x25 # rest) \<in> set (plus_in is_digit (prev, d # 0x25 # rest))"
    by (rule plus_in_first)
  then have "seq (plus_in is_digit) (char_in (\<lambda>c. c = 0x25)) (prev, d # 0x25 # rest) \<noteq> []"
    unfolding seq_matches by (rule bexI [rotated]) simp
  then show ?thesis
    by (simp add: quantity_regex_def alt_def)
qed

lemma has_percentage_quantity:
  "has_percentage line \<Longrightarrow> regex_test_from quantity_regex prev line"
proof (induction line arbitrary: prev rule: has_percentage.induct)
  case (1 d p rest)
  show ?case
  proof (cases "is_digit d \<and> p = 0x25")
    case True
    then show ?thesis by (simp add: quantity_regex_percent)
  next
    case False
    with "1.prems" have "has_percentage (p # rest)" by auto
    then have "regex_test_from quantity_regex (Some d) (p # rest)" by (rule "1.IH")
    then show ?thesis by simp
  qed
qed simp_all

lemma percentage_not_flagged: "has_percentage line \<Longrightarrow> \<not> flags_line line"
  by (simp add: flags_line_def regex_test_def has_percentage_quantity)

lemma checkAchievements_length:
  "length (checkAchievements text) = length (filter flags_line (split_by (\<lambda>c. c = 0x0A) text))"
proof -
  have "length (concat (map (\<lambda>line. if flags_line line then [achievement_item] else []) ls))
        = length (filter flags_line ls)" for ls
    by (induction ls) simp_all
  then show ?thesis by (simp add: checkAchievements_def)
qed

lemma checkAchievements_all_quantified:
  "list_all has_percentage (split_by (\<lambda>c. c = 0x0A) text) \<Longrightarrow> checkAchievements text = []"
  by (auto simp: checkAchievements_def list_all_iff percentage_not_flagged)

text \<open>
  C9. A text that does not contain "project" as a case-insensitive substring gets exactly
  one item from the Projects check, tagged with the yellow circle; a text that contains it
  gets none. A line that contains a percentage is never flagged by the Achievement check,
  which contributes one item for each flagged line and no other: for the line
  "This project improved output by 20%" it contributes nothing (the witness).
\<close>

theorem projects_item_iff_no_project:
  "(\<not> contains_ignoring_case (ascii ''project'') text \<longrightarrow> checkProjects text = [projects_item])
   \<and> (contains_ignoring_case (ascii ''project'') text \<longrightarrow> checkProjects text = [])
   \<and> leading_tag projects_item = Some Yellow
   \<and> (has_percentage line \<longrightarrow> \<not> flags_line line)
   \<and> length (checkAchievements text) = length (filter flags_line (split_by (\<lambda>c. c = 0x0A) text))
   \<and> (list_all has_percentage (split_by (\<lambda>c. c = 0x0A) text) \<longrightarrow> checkAchievements text = [])"
proof -
  have "regex_test (literal_ci (ascii ''project'')) text = contains_ignoring_case (ascii ''project'') text"
    by (simp add: regex_test_def contains_ignoring_case_def regex_test_from_literal_ci
        lower_project to_lower_project)
  then have p: "checkProjects text = (if contains_ignoring_case (ascii ''project'') text then [] else [projects_item])"
    by (simp add: checkProjects_def)
  have t: "leading_tag projects_item = Some Yellow"
    by (simp add: leading_tag_def tag_vocabulary_def projects_item_def yellow_circle_def
        red_circle_def warning_sign_def orange_circle_def)
  show ?thesis
    using p t percentage_not_flagged checkAchievements_length checkAchievements_all_quantified
    by simp
qed

theorem projects_item_iff_no_project_witness:
  "\<not> contains_ignoring_case (ascii ''project'') (ascii ''Built a compiler'')
   \<and> checkProjects (ascii ''Built a compiler'') = [projects_item]
   \<and> contains_ignoring_case (ascii ''project'') example_line
   \<and> checkProjects example_line = []
   \<and> has_percentage example_line
   \<and> \<not> flags_line example_line
   \<and> checkAchievements example_line = []"
proof -
  have a: "\<not> contains_ignoring_case (ascii ''project'') (ascii ''Built a compiler'')"
    unfolding contains_ignoring_case_def by code_simp
  have b: "contains_ignoring_case (ascii ''project'') example_line"
    unfolding contains_ignoring_case_def example_line_def by code_simp
  have c: "has_percentage example_line"
    unfolding example_line_def by code_simp
  have d: "list_all has_percentage (split_by (\<lambda>c. c = 0x0A) example_line)"
    unfolding example_line_def by code_simp
  from projects_item_iff_no_project [of "ascii ''Built a compiler''" example_line] a
  have 1: "checkProjects (ascii ''Built a compiler'') = [projects_item]" by blast
  from projects_item_iff_no_project [of example_line example_line] b c d
  have 2: "checkProjects example_line = [] \<and> \<not> flags_line example_line
           \<and> checkAchievements example_line = []" by blast
  from a b c 1 2 show ?thesis by simp
qed

section \<open>Contact formatting\<close>

text \<open>
  C10. The contact check returns at most one item for every text: the one red-circle item
  when the email pattern and the phone pattern are both absent (not two items), and
  nothing when both are present.
\<close>

theorem contact_at_most_one_item:
  "length (checkContactFormatting text) \<le> 1
   \<and> (\<not> regex_test email_regex text \<and> \<not> regex_test phone_regex text
        \<longrightarrow> checkContactFormatting text = [contact_item])
   \<and> (regex_test email_regex text \<and> regex_test phone_regex text
        \<longrightarrow> checkContactFormatting text = [])
   \<and> checkContactFormatting text =
        (if regex_test email_regex text \<and> regex_test phone_regex text then [] else [contact_item])
   \<and> leading_tag contact_item = Some Red"
proof -
  have t: "leading_tag contact_item = Some Red"
    by (simp add: leading_tag_def tag_vocabulary_def contact_item_def red_circle_def)
  then show ?thesis
    by (simp add: checkContactFormatting_def)
qed

theorem contact_at_most_one_item_witness:
  "\<not> regex_test email_regex (ascii ''no contact here'')
   \<and> \<not> regex_test phone_regex (ascii ''no contact here'')
   \<and> checkContactFormatting (ascii ''no contact here'') = [contact_item]
   \<and> regex_test email_regex (ascii ''jane.doe@example.com +91 9876543210'')
   \<and> regex_test phone_regex (ascii ''jane.doe@example.com +91 9876543210'')
   \<and> checkContactFormatting (ascii ''jane.doe@example.com +91 9876543210'') = []"
proof -
  have a: "\<not> regex_test email_regex (ascii ''no contact here'')" by code_simp
  have b: "\<not> regex_test phone_regex (ascii ''no contact here'')" by code_simp
  have c: "regex_test email_regex (ascii ''jane.doe@example.com +91 9876543210'')" by code_simp
  have d: "regex_test phone_regex (ascii ''jane.doe@example.com +91 9876543210'')" by code_simp
  from contact_at_most_one_item [of "ascii ''no contact here''"] a b
  have 1: "checkContactFormatting (ascii ''no contact here'') = [contact_item]" by blast
  from contact_at_most_one_item [of "ascii ''jane.doe@example.com +91 9876543210''"] c d
  have 2: "checkContactFormatting (ascii ''jane.doe@example.com +91 9876543210'') = []" by blast
  from a b c d 1 2 show ?thesis by simp
qed

section \<open>Grammar heuristics\<close>

lemma cons_head_length: "ys \<noteq> [] \<Longrightarrow> length (cons_head x ys) = length ys"
  by (cases ys) simp_all

lemma split_by_nonempty: "split_by P s \<noteq> []"
  by (induction s) (auto, metis cons_head.elims list.discI)

lemma split_by_length: "length (split_by P s) = Suc (length (filter P s))"
  by (induction s) (simp_all add: cons_head_length split_by_nonempty)

lemma filter_count: "length (filter (\<lambda>c. c = a) s) = count_list s a"
  by (induction s) auto

lemma is_long_sentence_spaces: "is_long_sentence s = (25 \<le> count_list s 0x20)"
  by (auto simp add: is_long_sentence_def split_by_length filter_count)

lemma input_start_later: "\<not> regex_test_from (seq input_start r) (Some a) s"
  by (induction s arbitrary: a) (simp_all add: seq_def input_start_def)

lemma starts_lowercase_trim:
  "starts_lowercase s = (case trim s of [] \<Rightarrow> False | c # rest \<Rightarrow> is_lower c)"
  by (cases "trim s")
     (simp_all add: starts_lowercase_def regex_test_def input_start_later, simp_all add: seq_def input_start_def)

lemma grammar_structure:
  "checkGrammarHeuristics text =
     (if 5 < long_count text then [long_sentences_item (long_count text)] else [])
     @ (if lowercase_found text then [lowercase_item] else [])
     @ (if \<not> 5 < long_count text \<and> \<not> lowercase_found text then [grammar_ok_item] else [])"
  by (auto simp: checkGrammarHeuristics_def long_count_def lowercase_found_def Let_def
      list_ex_iff filter_empty_conv)

lemma grammar_tags:
  "leading_tag (long_sentences_item n) = Some Orange \<and> leading_tag lowercase_item = Some Orange
   \<and> leading_tag grammar_ok_item = Some CheckMark"
  by (simp add: leading_tag_def tag_vocabulary_def long_sentences_item_def lowercase_item_def
      grammar_ok_item_def orange_circle_def red_circle_def warning_sign_def yellow_circle_def
      green_circle_def check_mark_def)

lemma count_dropWhile: "count_list (dropWhile P xs) c \<le> count_list xs c"
  by (induction xs) simp_all

lemma spaces_trim: "spaces (trim s) \<le> spaces s"
proof -
  have "count_list (dropWhile is_space (rev (dropWhile is_space s))) 0x20
          \<le> count_list (rev (dropWhile is_space s)) 0x20"
    by (rule count_dropWhile)
  also have "\<dots> \<le> count_list s 0x20"
    by (simp add: count_dropWhile)
  finally show ?thesis
    by (simp add: spaces_def trim_def)
qed

lemma filter_length_mono:
  "(\<And>x. P x \<Longrightarrow> Q x) \<Longrightarrow> length (filter P xs) \<le> length (filter Q xs)"
  by (induction xs) auto

lemma long_count_margins: "long_count input = long_with_margins input"
proof -
  have "is_long_sentence = (\<lambda>s. 25 \<le> spaces s)"
    by (rule ext) (simp add: is_long_sentence_spaces spaces_def)
  then show ?thesis
    by (simp add: long_count_def long_with_margins_def)
qed

lemma long_trimmed_le: "long_when_trimmed input \<le> long_count input"
  unfolding long_count_margins long_when_trimmed_def long_with_margins_def
  by (rule filter_length_mono) (use spaces_trim in \<open>fastforce intro: order_trans\<close>)

lemma grammar_items_distinct:
  "lowercase_item \<noteq> long_sentences_item n" "lowercase_item \<noteq> grammar_ok_item"
  "grammar_ok_item \<noteq> long_sentences_item n"
  by (simp_all add: lowercase_item_def long_sentences_item_def grammar_ok_item_def
      orange_circle_def check_mark_def ascii_def)

lemma lowercase_found_iff:
  "lowercase_found input =
     (\<exists>s \<in> set (sentences_of input). \<exists>c rest. trim s = c # rest \<and> is_lower c)"
proof -
  have "starts_lowercase s = (\<exists>c rest. trim s = c # rest \<and> is_lower c)" for s
    by (cases "trim s") (simp_all add: starts_lowercase_trim)
  then show ?thesis
    by (simp add: lowercase_found_def list_ex_iff)
qed

text \<open>
  C7, as the code has it. A sentence counts as long by the space characters in it. When
  more than 5 sentences have 25 or more of them once trimmed (more than 25 words a single
  space apart), the long-sentences item is pushed; when at most 5 sentences have 25 or
  more of them in all, it is not. The lowercase item is pushed iff some sentence starts,
  once trimmed, with a letter from a to z. The check-mark item is pushed, alone, iff
  neither of the two is. Six sentences of 30 capitalized words a space apart give the one
  long-sentences item and no check mark; two short capitalized sentences give the one
  check-mark item.
\<close>

theorem grammar_items:
  "(5 < long_when_trimmed input \<longrightarrow>
      (\<exists>n. 5 < n \<and> checkGrammarHeuristics input
             = long_sentences_item n # (if lowercase_found input then [lowercase_item] else [])))
   \<and> (long_with_margins input \<le> 5 \<longrightarrow>
      checkGrammarHeuristics input = (if lowercase_found input then [lowercase_item] else [grammar_ok_item]))
   \<and> (lowercase_item \<in> set (checkGrammarHeuristics input)) = lowercase_found input
   \<and> lowercase_found input =
        (\<exists>s \<in> set (sentences_of input). \<exists>c rest. trim s = c # rest \<and> is_lower c)
   \<and> (grammar_ok_item \<in> set (checkGrammarHeuristics input))
        = (checkGrammarHeuristics input = [grammar_ok_item])
   \<and> (checkGrammarHeuristics input = [grammar_ok_item])
        = (lowercase_item \<notin> set (checkGrammarHeuristics input)
           \<and> (\<forall>n. long_sentences_item n \<notin> set (checkGrammarHeuristics input)))
   \<and> leading_tag (long_sentences_item m) = Some Orange
   \<and> leading_tag lowercase_item = Some Orange
   \<and> leading_tag grammar_ok_item = Some CheckMark
   \<and> checkGrammarHeuristics (sentences_text 6 30) = [long_sentences_item 6]
   \<and> checkGrammarHeuristics (ascii ''Hello world. Good day.'') = [grammar_ok_item]"
proof -
  note s = grammar_structure [of input]
  have a: "\<exists>n. 5 < n \<and> checkGrammarHeuristics input
             = long_sentences_item n # (if lowercase_found input then [lowercase_item] else [])"
    if "5 < long_when_trimmed input"
  proof -
    from that long_trimmed_le [of input] have "5 < long_count input" by simp
    with s show ?thesis by auto
  qed
  have b: "checkGrammarHeuristics input = (if lowercase_found input then [lowercase_item] else [grammar_ok_item])"
    if "long_with_margins input \<le> 5"
    using that s by (simp add: long_count_margins)
  have c: "(lowercase_item \<in> set (checkGrammarHeuristics input)) = lowercase_found input"
    using s by (simp add: grammar_items_distinct)
  have d: "(grammar_ok_item \<in> set (checkGrammarHeuristics input))
        = (checkGrammarHeuristics input = [grammar_ok_item])"
    using s grammar_items_distinct grammar_items_distinct [symmetric] by (auto split: if_splits)
  have e: "(checkGrammarHeuristics input = [grammar_ok_item])
        = (lowercase_item \<notin> set (checkGrammarHeuristics input)
           \<and> (\<forall>n. long_sentences_item n \<notin> set (checkGrammarHeuristics input)))"
    using s grammar_items_distinct grammar_items_distinct [symmetric] by (auto split: if_splits)
  have six: "checkGrammarHeuristics (sentences_text 6 30) = [long_sentences_item 6]"
    by code_simp
  have two: "checkGrammarHeuristics (ascii ''Hello world. Good day.'') = [grammar_ok_item]"
    by code_simp
  from a b c d e lowercase_found_iff [of input] grammar_tags [of m] six two show ?thesis
    by blast
qed

theorem grammar_items_witness:
  "5 < long_when_trimmed (sentences_text 6 30)
   \<and> \<not> lowercase_found (sentences_text 6 30)
   \<and> (\<exists>n. 5 < n \<and> checkGrammarHeuristics (sentences_text 6 30) = [long_sentences_item n])
   \<and> long_with_margins (ascii ''hello world. Good day.'') \<le> 5
   \<and> lowercase_found (ascii ''hello world. Good day.'')
   \<and> checkGrammarHeuristics (ascii ''hello world. Good day.'') = [lowercase_item]"
proof -
  have a: "5 < long_when_trimmed (sentences_text 6 30)" by code_simp
  have b: "\<not> lowercase_found (sentences_text 6 30)" by code_simp
  have c: "long_with_margins (ascii ''hello world. Good day.'') \<le> 5" by code_simp
  have d: "lowercase_found (ascii ''hello world. Good day.'')" by code_simp
  from grammar_items [of "sentences_text 6 30"] a b
  have 1: "\<exists>n. 5 < n \<and> checkGrammarHeuristics (sentences_text 6 30) = [long_sentences_item n]"
    by auto
  from grammar_items [of "ascii ''hello world. Good day.''"] c d
  have 2: "checkGrammarHeuristics (ascii ''hello world. Good day.'') = [lowercase_item]"
    by simp
  from a b c d 1 2 show ?thesis by simp
qed

text \<open>
  C7, as the claim words it, fails: six sentences of 30 words each, the words one to a
  line, exceed 25 white-space-delimited words, and the heuristic finds no long sentence.
\<close>

theorem grammar_word_count_counterexample:
  "5 < length (filter many_words (sentences_of (lines_text 6 30)))
   \<and> checkGrammarHeuristics (lines_text 6 30) = [grammar_ok_item]"
  by code_simp

text \<open>
  Line 84 splits the sentence as it stands, where lines 81 and 88 trim it first: the
  space behind a full stop counts as a word of the next sentence. Of seven sentences of
  25 words, six are found long.
\<close>

lemma leading_space_counts_as_word:
  "checkGrammarHeuristics (sentences_text 7 25) = [long_sentences_item 6]
   \<and> \<not> 5 < length (filter many_words (sentences_of (sentences_text 7 25)))"
  by code_simp

section \<open>Keyword match\<close>

lemma fixed_range:
  assumes "0 \<le> (x::real)" "x \<le> 100"
  shows "nat \<lfloor>x * 100 + 1 / 2\<rfloor> \<le> 10000"
proof -
  have "x * 100 + 1 / 2 < 10001" using assms by simp
  then have "\<lfloor>x * 100 + 1 / 2\<rfloor> < 10001" by (simp add: floor_less_iff)
  then show ?thesis by linarith
qed

lemma toFixed2_percent:
  assumes "0 \<le> x" "x \<le> 100"
  shows "\<exists>n \<le> 10000. toFixed2 w x = fixed2 n"
proof -
  have "\<not> (10::real) ^ 21 \<le> x" using assms by simp
  with assms have "toFixed2 w x = fixed2 (nat \<lfloor>x * 100 + 1 / 2\<rfloor>)"
    by (simp add: toFixed2_def Let_def)
  with fixed_range [OF assms] show ?thesis by blast
qed

text \<open>
  C5. The keyword check returns nothing when the job description is left out or empty.
  When it is not empty, and the similarity is between 0 and 1 as the package promises,
  it returns exactly one item, tagged with the green circle, whose percentage is
  \<open>n / 100\<close> printed with two decimals for some \<open>n\<close> from 0 to 10000: between "0.00"
  and "100.00".
\<close>

theorem keyword_match_items:
  "(jobDescArg = None \<or> jobDescArg = Some [] \<longrightarrow> checkKeywordMatch w text jobDescArg = [])
   \<and> (jobDescArg = Some j \<and> j \<noteq> [] \<and> 0 \<le> similarity w text j \<and> similarity w text j \<le> 1
        \<and> double_rounding w
        \<longrightarrow> (\<exists>n \<le> 10000. checkKeywordMatch w text jobDescArg = [keyword_item (fixed2 n)]))
   \<and> leading_tag (keyword_item p) = Some Green
   \<and> fixed2 0 = ascii ''0.00'' \<and> fixed2 10000 = ascii ''100.00''"
proof -
  have empty: "jobDescArg = None \<or> jobDescArg = Some [] \<longrightarrow> checkKeywordMatch w text jobDescArg = []"
    by (auto simp: checkKeywordMatch_def)
  have one: "\<exists>n \<le> 10000. checkKeywordMatch w text jobDescArg = [keyword_item (fixed2 n)]"
    if j: "jobDescArg = Some j" "j \<noteq> []"
      and s: "0 \<le> similarity w text j" "similarity w text j \<le> 1"
      and d: "double_rounding w"
  proof -
    let ?x = "to_double w (similarity w text j * 100)"
    from d have m: "mono (to_double w)"
      by (simp add: double_rounding_def)
    from s have "0 \<le> similarity w text j * 100" "similarity w text j * 100 \<le> 100"
      by simp_all
    then have "to_double w 0 \<le> ?x" "?x \<le> to_double w 100"
      by (auto intro: monoD [OF m])
    with d have "0 \<le> ?x" "?x \<le> 100"
      by (simp_all add: double_rounding_def)
    then obtain n where "n \<le> 10000" "toFixed2 w ?x = fixed2 n"
      using toFixed2_percent by blast
    with j show ?thesis
      by (auto simp: checkKeywordMatch_def similarity_def)
  qed
  have tag: "leading_tag (keyword_item p) = Some Green"
    by (simp add: leading_tag_def tag_vocabulary_def keyword_item_def green_circle_def
        red_circle_def warning_sign_def orange_circle_def yellow_circle_def)
  have lo: "fixed2 0 = ascii ''0.00''" by code_simp
  have hi: "fixed2 10000 = ascii ''100.00''" by code_simp
  from empty one tag lo hi show ?thesis by blast
qed

theorem keyword_match_items_witness:
  "checkKeywordMatch example_world (ascii ''Java developer'') None = []
   \<and> checkKeywordMatch example_world (ascii ''Java developer'') (Some []) = []
   \<and> similarity example_world (ascii ''Java developer'') (ascii ''Rust'') = 1 / 2
   \<and> double_rounding example_world
   \<and> (\<exists>n \<le> 10000. checkKeywordMatch example_world (ascii ''Java developer'') (Some (ascii ''Rust''))
         = [keyword_item (fixed2 n)])
   \<and> checkKeywordMatch example_world (ascii ''Java developer'') (Some (ascii ''Rust''))
         = [keyword_item (ascii ''50.00'')]"
proof -
  let ?t = "ascii ''Java developer''"
  have s: "similarity example_world ?t (ascii ''Rust'') = 1 / 2"
    by (simp add: similarity_def example_world_def ascii_def to_lower_def is_upper_def)
  have d: "double_rounding example_world"
    by (simp add: double_rounding_def example_world_def mono_def)
  have n: "ascii ''Rust'' \<noteq> []"
    by (simp add: ascii_def)
  from keyword_match_items [of None example_world ?t] 
  have 1: "checkKeywordMatch example_world ?t None = []" by blast
  from keyword_match_items [of "Some []" example_world ?t] 
  have 2: "checkKeywordMatch example_world ?t (Some []) = []" by blast
  from keyword_match_items [of "Some (ascii ''Rust'')" example_world ?t "ascii ''Rust''"] s d n
  have 3: "\<exists>n \<le> 10000. checkKeywordMatch example_world ?t (Some (ascii ''Rust''))
         = [keyword_item (fixed2 n)]" by simp
  have f: "fixed2 5000 = ascii ''50.00''" by code_simp
  have "to_double example_world (similarity example_world ?t (ascii ''Rust'') * 100) = 50"
    by (simp add: s) (simp add: example_world_def)
  then have "toFixed2 example_world
      (to_double example_world (similarity example_world ?t (ascii ''Rust'') * 100)) = ascii ''50.00''"
    by (simp add: toFixed2_def f)
  then have 4: "checkKeywordMatch example_world ?t (Some (ascii ''Rust'')) = [keyword_item (ascii ''50.00'')]"
    using n by (simp add: checkKeywordMatch_def similarity_def)
  from 1 2 3 4 s d show ?thesis by simp
qed

section \<open>Formatting consistency: what is pushed, and when\<close>

lemma collect_three:
  "collect_layout (one_page_document three_fonts) =
     Inr \<lparr>fonts = [ascii ''Arial'', ascii ''Times'', ascii ''Courier''], fontSizes = [12], leftPositions = [72, 72, 72]\<rparr>"
  by (simp add: collect_layout_def one_page_document_def promised_page_def three_fonts_def
      text_run_def visit_item_def set_add_def math_round_def ascii_def)

lemma collect_one:
  "collect_layout (one_page_document one_font) =
     Inr \<lparr>fonts = [ascii ''Arial''], fontSizes = [12], leftPositions = [72]\<rparr>"
  by (simp add: collect_layout_def one_page_document_def promised_page_def one_font_def
      text_run_def visit_item_def set_add_def math_round_def ascii_def)

lemma collect_none:
  "collect_layout (one_page_document []) = Inr \<lparr>fonts = [], fontSizes = [], leftPositions = []\<rparr>"
  by (simp add: collect_layout_def one_page_document_def promised_page_def)

lemma try_three:
  "formatting_try (pdf_world t (one_page_document three_fonts)) p = ([fonts_item], Some TypeError)"
  by (simp add: formatting_try_def pdf_world_def example_world_def collect_three)
     (simp add: one_page_document_def promised_page_def layout_flags_def font_flags_def leftVar_def)

lemma formatting_items_distinct:
  "alignment_item \<noteq> fonts_item" "alignment_item \<noteq> font_sizes_item"
  "alignment_item \<noteq> bullet_styles_item" "alignment_item \<noteq> formatting_failure_item"
  "alignment_item \<noteq> formatting_ok_item"
  "formatting_ok_item \<noteq> fonts_item" "formatting_ok_item \<noteq> font_sizes_item"
  "formatting_ok_item \<noteq> alignment_item" "formatting_ok_item \<noteq> formatting_failure_item"
  "formatting_failure_item \<noteq> fonts_item" "formatting_failure_item \<noteq> font_sizes_item"
  "formatting_failure_item \<noteq> alignment_item"
  by (simp_all add: alignment_item_def fonts_item_def font_sizes_item_def bullet_styles_item_def
      formatting_failure_item_def formatting_ok_item_def warning_sign_def cross_mark_def
      check_mark_def ascii_def)

lemma font_flags_subset: "set (font_flags st) \<subseteq> {fonts_item, font_sizes_item}"
  by (auto simp: font_flags_def)

lemma layout_flags_subset:
  "set (layout_flags st) \<subseteq> {fonts_item, font_sizes_item, alignment_item}"
  by (auto simp: layout_flags_def font_flags_def)

lemma leftVar_empty: "leftVar [] = MinusInfinity"
  by (simp add: leftVar_def)

lemma no_alignment_among_fonts: "alignment_item \<notin> set (font_flags st)"
  using font_flags_subset [of st] formatting_items_distinct by auto

lemma no_alignment_flag: "leftPositions st = [] \<Longrightarrow> alignment_item \<notin> set (layout_flags st)"
  by (simp add: layout_flags_def leftVar_empty no_alignment_among_fonts)

lemma bullet_flags_subset: "set (bullet_flags its) \<subseteq> {bullet_styles_item}"
  by (auto simp: bullet_flags_def Let_def)

lemma no_alignment_among_bullets: "alignment_item \<notin> set (bullet_flags its)"
  using bullet_flags_subset [of its] formatting_items_distinct by auto

lemma formatting_try_cases:
  "formatting_try w p = (tried, thrown) \<Longrightarrow>
     (tried = [] \<and> thrown \<noteq> None
        \<and> ((\<exists>e. readFileSync w p = Inl e)
             \<or> (\<exists>data e. readFileSync w p = Inr data \<and> getDocument w data = Inl e)
             \<or> (\<exists>data doc e. readFileSync w p = Inr data \<and> getDocument w data = Inr doc
                    \<and> collect_layout doc = Inl e)))
     \<or> (\<exists>data doc st. readFileSync w p = Inr data \<and> getDocument w data = Inr doc
            \<and> collect_layout doc = Inr st
            \<and> ((max_spread w < length (leftPositions st) \<and> tried = font_flags st
                   \<and> thrown = Some RangeError)
                 \<or> (tried = layout_flags st \<and> thrown \<noteq> None
                   \<and> ((\<exists>e. getPage doc 1 = Inl e)
                        \<or> (\<exists>page1. getPage doc 1 = Inr page1
                               \<and> items_property (getTextContent page1) = None)))
                 \<or> (\<exists>page1 its. getPage doc 1 = Inr page1
                        \<and> items_property (getTextContent page1) = Some its
                        \<and> tried = layout_flags st @ bullet_flags its \<and> thrown = None)))"
  unfolding formatting_try_def
  by (auto simp: Let_def split: sum.splits option.splits if_splits)

lemma check_after_throw:
  "formatting_try w p = (tried, Some err) \<Longrightarrow>
     checkFormattingConsistency w p = tried @ [formatting_failure_item]"
  by (simp add: checkFormattingConsistency_def)

lemma check_without_throw:
  "formatting_try w p = (tried, None) \<Longrightarrow>
     checkFormattingConsistency w p = (if tried = [] then [formatting_ok_item] else tried)"
  by (simp add: checkFormattingConsistency_def)

lemma thrown_flags:
  assumes "formatting_try w p = (tried, Some err)"
  shows "set tried \<subseteq> {fonts_item, font_sizes_item, alignment_item}"
  using formatting_try_cases [OF assms] layout_flags_subset font_flags_subset by fastforce

lemma failure_tag: "leading_tag formatting_failure_item = Some CrossMark"
  by (simp add: leading_tag_def tag_vocabulary_def formatting_failure_item_def cross_mark_def
      red_circle_def warning_sign_def orange_circle_def yellow_circle_def green_circle_def
      check_mark_def)

lemma warning_tags:
  "leading_tag fonts_item = Some Warning" "leading_tag font_sizes_item = Some Warning"
  "leading_tag alignment_item = Some Warning" "leading_tag bullet_styles_item = Some Warning"
  by (simp_all add: leading_tag_def tag_vocabulary_def fonts_item_def font_sizes_item_def
      alignment_item_def bullet_styles_item_def warning_sign_def red_circle_def)

text \<open>
  Whatever is thrown inside the \<open>try\<close> is caught, and one cross-mark item is appended to
  the flags pushed before the throw. A throw while the file is read, the document opened
  or the pages walked comes before any push.
\<close>

lemma formatting_failure_structure:
  "(formatting_try w p = (tried, Some err) \<longrightarrow>
       checkFormattingConsistency w p = tried @ [formatting_failure_item]
       \<and> set tried \<subseteq> {fonts_item, font_sizes_item, alignment_item}
       \<and> formatting_failure_item \<notin> set tried
       \<and> formatting_ok_item \<notin> set (checkFormattingConsistency w p))
   \<and> (readFileSync w p = Inl e \<longrightarrow> checkFormattingConsistency w p = [formatting_failure_item])
   \<and> (readFileSync w p = Inr data \<and> getDocument w data = Inl e
        \<longrightarrow> checkFormattingConsistency w p = [formatting_failure_item])
   \<and> (readFileSync w p = Inr data \<and> getDocument w data = Inr doc \<and> collect_layout doc = Inl e
        \<longrightarrow> checkFormattingConsistency w p = [formatting_failure_item])
   \<and> leading_tag formatting_failure_item = Some CrossMark"
proof -
  have thrown: "checkFormattingConsistency w p = tried @ [formatting_failure_item]
       \<and> set tried \<subseteq> {fonts_item, font_sizes_item, alignment_item}
       \<and> formatting_failure_item \<notin> set tried
       \<and> formatting_ok_item \<notin> set (checkFormattingConsistency w p)"
    if t: "formatting_try w p = (tried, Some err)"
  proof -
    note sub = thrown_flags [OF t]
    from sub have a: "formatting_failure_item \<notin> set tried"
      using formatting_items_distinct by auto
    from sub have b: "formatting_ok_item \<notin> set tried"
      using formatting_items_distinct by auto
    from a b sub show ?thesis
      by (simp add: check_after_throw [OF t] formatting_items_distinct)
  qed
  have r: "checkFormattingConsistency w p = [formatting_failure_item]" if "readFileSync w p = Inl e"
    using that by (simp add: checkFormattingConsistency_def formatting_try_def)
  have g: "checkFormattingConsistency w p = [formatting_failure_item]"
    if "readFileSync w p = Inr data" "getDocument w data = Inl e"
    using that by (simp add: checkFormattingConsistency_def formatting_try_def)
  have c: "checkFormattingConsistency w p = [formatting_failure_item]"
    if "readFileSync w p = Inr data" "getDocument w data = Inr doc" "collect_layout doc = Inl e"
    using that by (simp add: checkFormattingConsistency_def formatting_try_def)
  from thrown r g c failure_tag show ?thesis by blast
qed






text \<open>
  Two throws come after the layout is extracted and the font flags may be pushed: the
  spread of line 128, on more left offsets than the engine lets a call spread, and the
  read of line 133. With three fonts on the page, either leaves the font flag in front of
  the cross-mark item.
\<close>

lemma spread_throw_after_font_flag:
  "formatting_try ((pdf_world None (one_page_document three_fonts))\<lparr>max_spread := 2\<rparr>) resume_path
     = ([fonts_item], Some RangeError)
   \<and> checkFormattingConsistency
        ((pdf_world None (one_page_document three_fonts))\<lparr>max_spread := 2\<rparr>) resume_path
     = [fonts_item, formatting_failure_item]"
proof -
  have "formatting_try ((pdf_world None (one_page_document three_fonts))\<lparr>max_spread := 2\<rparr>)
          resume_path = ([fonts_item], Some RangeError)"
    by (simp add: formatting_try_def pdf_world_def collect_three font_flags_def)
  then show ?thesis
    by (simp add: checkFormattingConsistency_def)
qed

lemma items_throw_after_font_flag:
  "formatting_try (pdf_world None (one_page_document three_fonts)) resume_path
     = ([fonts_item], Some TypeError)
   \<and> checkFormattingConsistency (pdf_world None (one_page_document three_fonts)) resume_path
     = [fonts_item, formatting_failure_item]
   \<and> leading_tag fonts_item = Some Warning"
  by (simp add: try_three checkFormattingConsistency_def warning_tags)

text \<open>
  C6. With no left offset collected, \<open>Math.max\<close> and \<open>Math.min\<close> return the two
  infinities instead of raising, their difference is minus infinity, which is not greater
  than 30, and the alignment flag is neither among the layout flags nor in the result of
  the check.
\<close>

theorem empty_leftPositions_no_alignment_flag:
  "leftVar [] = MinusInfinity \<and> \<not> greater_number (leftVar []) 30
   \<and> (leftPositions st = [] \<longrightarrow> alignment_item \<notin> set (layout_flags st))
   \<and> (readFileSync w p = Inr data \<and> getDocument w data = Inr doc \<and> collect_layout doc = Inr st
          \<and> leftPositions st = []
        \<longrightarrow> alignment_item \<notin> set (checkFormattingConsistency w p))"
proof -
  have whole: "alignment_item \<notin> set (checkFormattingConsistency w p)"
    if h: "readFileSync w p = Inr data" "getDocument w data = Inr doc" "collect_layout doc = Inr st"
      and e: "leftPositions st = []"
  proof -
    obtain tried thrown where t: "formatting_try w p = (tried, thrown)"
      by (cases "formatting_try w p")
    from formatting_try_cases [OF t] h
    have "tried = font_flags st \<or> tried = layout_flags st
          \<or> (\<exists>its. tried = layout_flags st @ bullet_flags its)"
      by auto
    with no_alignment_flag [OF e] no_alignment_among_bullets no_alignment_among_fonts
    have n: "alignment_item \<notin> set tried"
      by auto
    show ?thesis
    proof (cases thrown)
      case None
      with t n show ?thesis
        by (simp add: check_without_throw formatting_items_distinct)
    next
      case (Some err)
      with t n show ?thesis
        by (simp add: check_after_throw formatting_items_distinct)
    qed
  qed
  from whole no_alignment_flag [of st] show ?thesis
    by (simp add: leftVar_empty)
qed

theorem empty_leftPositions_no_alignment_flag_witness:
  "collect_layout (one_page_document []) = Inr \<lparr>fonts = [], fontSizes = [], leftPositions = []\<rparr>
   \<and> alignment_item \<notin> set (layout_flags \<lparr>fonts = [], fontSizes = [], leftPositions = []\<rparr>)
   \<and> alignment_item \<notin> set (checkFormattingConsistency (pdf_world None (one_page_document [])) resume_path)"
proof -
  let ?w = "pdf_world None (one_page_document [])"
  let ?st = "\<lparr>fonts = [], fontSizes = [], leftPositions = []\<rparr>"
  have h: "readFileSync ?w resume_path = Inr [0x25, 0x50, 0x44, 0x46]"
    "getDocument ?w [0x25, 0x50, 0x44, 0x46] = Inr (one_page_document [])"
    by (simp_all add: pdf_world_def)
  have e: "leftPositions ?st = []" by simp
  from empty_leftPositions_no_alignment_flag [of ?st ?w resume_path "[0x25, 0x50, 0x44, 0x46]" "one_page_document []"]
    h e collect_none
  show ?thesis by simp
qed

text \<open>
  Line 133 calls \<open>page1.getTextContent()\<close> without the \<open>await\<close> that line 110 has.
  Where the call returns a promise, \<open>items\<close> is \<open>undefined\<close>, \<open>map\<close> throws, and the
  check ends in the cross-mark item whatever the layout is. Where the items are at hand,
  a layout within the four limits gets the one success item.
\<close>

lemma promise_never_consistent:
  assumes "readFileSync w p = Inr data" "getDocument w data = Inr doc"
    and "\<And>page. getPage doc 1 = Inr page \<Longrightarrow> \<exists>outcome. getTextContent page = Promise outcome"
  shows "\<exists>flags. checkFormattingConsistency w p = flags @ [formatting_failure_item]
            \<and> formatting_ok_item \<notin> set (checkFormattingConsistency w p)"
proof -
  obtain tried thrown where t: "formatting_try w p = (tried, thrown)"
    by (cases "formatting_try w p")
  have "thrown \<noteq> None"
    using formatting_try_cases [OF t] assms by fastforce
  then obtain err where "thrown = Some err" by blast
  with t have thrown: "formatting_try w p = (tried, Some err)" by simp
  then have result: "checkFormattingConsistency w p = tried @ [formatting_failure_item]"
    by (rule check_after_throw)
  from thrown_flags [OF thrown] have "formatting_ok_item \<notin> set tried"
    using formatting_items_distinct by auto
  with result show ?thesis
    by (simp add: formatting_items_distinct)
qed

lemma consistent_when_items_at_hand:
  assumes "readFileSync w p = Inr data" "getDocument w data = Inr doc" "collect_layout doc = Inr st"
    and "getPage doc 1 = Inr page1" "getTextContent page1 = Immediate its"
    and "length (fonts st) \<le> 2" "length (fontSizes st) \<le> 4"
    and "length (leftPositions st) \<le> max_spread w"
    and "\<not> greater_number (leftVar (leftPositions st)) 30"
    and "length (new_Set (match_all bullet_regex (join [0x0A] (map str its)))) \<le> 1"
  shows "checkFormattingConsistency w p = [formatting_ok_item]"
  using assms
  by (simp add: checkFormattingConsistency_def formatting_try_def layout_flags_def
      font_flags_def bullet_flags_def Let_def)

lemma one_font_layout_flags:
  "layout_flags \<lparr>fonts = [ascii ''Arial''], fontSizes = [12], leftPositions = [72]\<rparr> = []"
  by (simp add: layout_flags_def font_flags_def leftVar_def)

lemma one_font_formatting:
  "checkFormattingConsistency (pdf_world t (one_page_document one_font)) p = [formatting_failure_item]"
proof -
  have "formatting_try (pdf_world t (one_page_document one_font)) p = ([], Some TypeError)"
    by (simp add: formatting_try_def pdf_world_def example_world_def collect_one
        one_font_layout_flags)
       (simp add: one_page_document_def promised_page_def)
  then show ?thesis
    by (simp add: checkFormattingConsistency_def)
qed

text \<open>
  C3 fails on the code. One page with one run in one font, one size and one left offset,
  and no bullet: the layout is within every limit, no flag is pushed, and the check
  returns the cross-mark item where the claim says the one check-mark item.
\<close>

theorem missing_await_reports_failure:
  "collect_layout (one_page_document one_font)
     = Inr \<lparr>fonts = [ascii ''Arial''], fontSizes = [12], leftPositions = [72]\<rparr>
   \<and> layout_flags \<lparr>fonts = [ascii ''Arial''], fontSizes = [12], leftPositions = [72]\<rparr> = []
   \<and> bullet_flags one_font = []
   \<and> checkFormattingConsistency (pdf_world (Some (ascii ''Hello'')) (one_page_document one_font))
        resume_path = [formatting_failure_item]"
proof -
  have b: "bullet_flags one_font = []"
    unfolding one_font_def text_run_def by code_simp
  from collect_one one_font_layout_flags b one_font_formatting show ?thesis
    by simp
qed

section \<open>The review: unreadable files\<close>

lemma parsePDF_empty:
  "(parsePDF w p = Inr []) =
     (\<exists>buffer data. readFileSync w p = Inr buffer \<and> pdf_parse w buffer = Inr data
        \<and> (text_of data = None \<or> text_of data = Some []))"
  by (auto simp: parsePDF_def split: sum.splits option.splits)

lemma reviewResume_error:
  "parsePDF w p = Inl e \<Longrightarrow> reviewResume w p jd = ([analyzing_log p], Inl e)"
  by (simp add: reviewResume_def analyzing_log_def)

lemma reviewResume_unreadable:
  "parsePDF w p = Inr [] \<Longrightarrow> reviewResume w p jd = ([analyzing_log p, unreadable_log], Inr None)"
  by (simp add: reviewResume_def analyzing_log_def)

lemma reviewResume_result:
  "parsePDF w p = Inr t \<Longrightarrow> t \<noteq> [] \<Longrightarrow>
     \<exists>r. snd (reviewResume w p jd) = Inr (Some r) \<and> score r = calculateScore (results r)"
  by (simp add: reviewResume_def Let_def)

text \<open>
  C4. When the extracted text is empty or absent, the review writes the two console lines
  and is fulfilled with \<open>undefined\<close>: no check runs, nothing of the world beyond the
  text extraction is consulted, no score is computed and no result is returned. The
  outcome \<open>undefined\<close> arises in this case only, and every result that is returned
  carries the score of its own items.
\<close>

theorem unreadable_text_short_circuits:
  "(parsePDF w p = Inr [] \<longrightarrow> reviewResume w p jd = ([analyzing_log p, unreadable_log], Inr None))
   \<and> (snd (reviewResume w p jd) = Inr None) = (parsePDF w p = Inr [])
   \<and> (parsePDF w p = Inr []) =
        (\<exists>buffer data. readFileSync w p = Inr buffer \<and> pdf_parse w buffer = Inr data
           \<and> (text_of data = None \<or> text_of data = Some []))
   \<and> (\<forall>r. snd (reviewResume w p jd) = Inr (Some r)
          \<longrightarrow> parsePDF w p \<noteq> Inr [] \<and> score r = calculateScore (results r))"
proof -
  have a: "reviewResume w p jd = ([analyzing_log p, unreadable_log], Inr None)" if "parsePDF w p = Inr []"
    using that by (rule reviewResume_unreadable)
  have b: "(snd (reviewResume w p jd) = Inr None) = (parsePDF w p = Inr [])"
  proof (cases "parsePDF w p")
    case (Inl e)
    then show ?thesis by (simp add: reviewResume_error)
  next
    case (Inr t)
    show ?thesis
    proof (cases "t = []")
      case True
      with Inr show ?thesis by (simp add: reviewResume_unreadable)
    next
      case False
      with Inr reviewResume_result [of w p t jd] show ?thesis by auto
    qed
  qed
  have c: "parsePDF w p \<noteq> Inr [] \<and> score r = calculateScore (results r)"
    if r: "snd (reviewResume w p jd) = Inr (Some r)" for r
  proof (cases "parsePDF w p")
    case (Inl e)
    with r show ?thesis by (simp add: reviewResume_error)
  next
    case (Inr t)
    show ?thesis
    proof (cases "t = []")
      case True
      with Inr r show ?thesis by (simp add: reviewResume_unreadable)
    next
      case False
      with Inr reviewResume_result [of w p t jd] r show ?thesis by auto
    qed
  qed
  from a b c parsePDF_empty [of w p] show ?thesis by blast
qed

lemma hello_checks:
  "all_checks (pdf_world (Some (ascii ''Hello'')) (one_page_document one_font)) (ascii ''Hello'')
       (Some [])
     = [projects_item, contact_item, compatibility_item, grammar_ok_item]"
proof -
  let ?w = "pdf_world (Some (ascii ''Hello'')) (one_page_document one_font)"
  have t: "titleCase ?w = (\<lambda>s. s)"
    by (simp add: pdf_world_def example_world_def)
  have k: "checkKeywordMatch ?w (ascii ''Hello'') (Some []) = []"
    by (simp add: checkKeywordMatch_def)
  have c: "checkBulletPoints (ascii ''Hello'') @ checkProjects (ascii ''Hello'')
           @ checkContactFormatting (ascii ''Hello'') @ checkHeadings (\<lambda>s. s) (ascii ''Hello'')
           @ checkAchievements (ascii ''Hello'') @ checkFileCompatibility (ascii ''Hello'')
           @ checkGrammarHeuristics (ascii ''Hello'')
           = [projects_item, contact_item, compatibility_item, grammar_ok_item]"
    by code_simp
  show ?thesis
    by (simp only: all_checks_def t k c append_Nil)
qed

lemma hello_score:
  "calculateScore [projects_item, contact_item, compatibility_item, grammar_ok_item,
                   formatting_failure_item] = 65"
  by code_simp

lemma normal_review:
  "snd (reviewResume (pdf_world (Some (ascii ''Hello'')) (one_page_document one_font)) resume_path None)
     = Inr (Some \<lparr>score = 65,
          results = [projects_item, contact_item, compatibility_item, grammar_ok_item, formatting_failure_item]\<rparr>)"
proof -
  let ?w = "pdf_world (Some (ascii ''Hello'')) (one_page_document one_font)"
  have p: "parsePDF ?w resume_path = Inr (ascii ''Hello'')"
    by (simp add: parsePDF_def pdf_world_def)
  have n: "ascii ''Hello'' \<noteq> []"
    by (simp add: ascii_def)
  from p n show ?thesis
    by (simp add: reviewResume_def hello_checks one_font_formatting hello_score Let_def)
qed


theorem unreadable_text_short_circuits_witness:
  "parsePDF (pdf_world (Some []) (one_page_document one_font)) resume_path = Inr []
   \<and> reviewResume (pdf_world (Some []) (one_page_document one_font)) resume_path None
       = ([analyzing_log resume_path, unreadable_log], Inr None)
   \<and> parsePDF (pdf_world None (one_page_document one_font)) resume_path = Inr []
   \<and> reviewResume (pdf_world None (one_page_document one_font)) resume_path (Some (ascii ''Rust''))
       = ([analyzing_log resume_path, unreadable_log], Inr None)
   \<and> snd (reviewResume (pdf_world (Some (ascii ''Hello'')) (one_page_document one_font)) resume_path None)
       = Inr (Some \<lparr>score = 65,
            results = [projects_item, contact_item, compatibility_item, grammar_ok_item,
                       formatting_failure_item]\<rparr>)
   \<and> parsePDF (pdf_world (Some (ascii ''Hello'')) (one_page_document one_font)) resume_path \<noteq> Inr []
   \<and> calculateScore [projects_item, contact_item, compatibility_item, grammar_ok_item,
                       formatting_failure_item] = 65"
proof -
  let ?doc = "one_page_document one_font"
  let ?r = "\<lparr>score = 65,
            results = [projects_item, contact_item, compatibility_item, grammar_ok_item,
                       formatting_failure_item]\<rparr>"
  have a: "parsePDF (pdf_world (Some []) ?doc) resume_path = Inr []"
    by (simp add: parsePDF_def pdf_world_def)
  have b: "parsePDF (pdf_world None ?doc) resume_path = Inr []"
    by (simp add: parsePDF_def pdf_world_def)
  note n = normal_review
  from unreadable_text_short_circuits [of "pdf_world (Some []) ?doc" resume_path None] a
  have 1: "reviewResume (pdf_world (Some []) ?doc) resume_path None
       = ([analyzing_log resume_path, unreadable_log], Inr None)" by blast
  from unreadable_text_short_circuits [of "pdf_world None ?doc" resume_path "Some (ascii ''Rust'')"] b
  have 2: "reviewResume (pdf_world None ?doc) resume_path (Some (ascii ''Rust''))
       = ([analyzing_log resume_path, unreadable_log], Inr None)" by blast
  from unreadable_text_short_circuits [of "pdf_world (Some (ascii ''Hello'')) ?doc" resume_path None] n
  have 3: "parsePDF (pdf_world (Some (ascii ''Hello'')) ?doc) resume_path \<noteq> Inr []
           \<and> score ?r = calculateScore (results ?r)" by blast
  from a b n 1 2 3 show ?thesis by simp
qed


end
